theory Spec2Isabelle
  imports Complex_Main
begin

section \<open>JavaScript numbers and values\<close>

text \<open>
  A JavaScript \<^verbatim>\<open>number\<close> is a finite value, \<^verbatim>\<open>NaN\<close> or one of the two infinities.
  A finite number is represented by the real it denotes. Comparison, \<^verbatim>\<open>isNaN\<close>, \<^verbatim>\<open>isFinite\<close>
  and \<^verbatim>\<open>toFixed\<close> are functions of that real; \<^verbatim>\<open>-0\<close> is not told apart from \<^verbatim>\<open>0\<close>, which
  none of them does either (\<^verbatim>\<open>(-0).toFixed(2)\<close> is \<^verbatim>\<open>"0.00"\<close>).
\<close>

datatype jsnum = Fin real | NaN | PosInf | NegInf

text \<open>The relational operators on numbers: every comparison with \<^verbatim>\<open>NaN\<close> is false.\<close>

fun js_lt :: "jsnum \<Rightarrow> jsnum \<Rightarrow> bool" where
  "js_lt NaN y = False"
| "js_lt x NaN = False"
| "js_lt (Fin x) (Fin y) = (x < y)"
| "js_lt (Fin x) PosInf = True"
| "js_lt (Fin x) NegInf = False"
| "js_lt PosInf y = False"
| "js_lt NegInf NegInf = False"
| "js_lt NegInf y = True"

definition js_gt :: "jsnum \<Rightarrow> jsnum \<Rightarrow> bool" where
  "js_gt x y = js_lt y x"

definition js_ge :: "jsnum \<Rightarrow> jsnum \<Rightarrow> bool" where
  "js_ge x y = (x \<noteq> NaN \<and> y \<noteq> NaN \<and> \<not> js_lt x y)"

definition js_le :: "jsnum \<Rightarrow> jsnum \<Rightarrow> bool" where
  "js_le x y = (x \<noteq> NaN \<and> y \<noteq> NaN \<and> \<not> js_lt y x)"

subsection \<open>Binary64 arithmetic\<close>

text \<open>
  The finite numbers of the language are the binary64 values. A result of \<^verbatim>\<open>+\<close>, \<^verbatim>\<open>-\<close> or \<^verbatim>\<open>*\<close>
  and the value of a decimal literal are rounded to the nearest of them, to the one with
  an even significand when two are equally near. \<open>rne\<close> rounds a real to the nearest integer
  in this way; \<open>binade\<close> is the exponent of the power of two at or below the magnitude, not
  less than the smallest normal exponent; \<open>round64\<close> rounds to 53 significant bits there.
\<close>

definition rne :: "real \<Rightarrow> int" where
  "rne y =
     (let f = \<lfloor>y\<rfloor>
      in if y - of_int f < 1 / 2 then f
         else if 1 / 2 < y - of_int f then f + 1
         else if even f then f else f + 1)"

definition binade :: "real \<Rightarrow> int" where
  "binade x = max \<lfloor>log 2 \<bar>x\<bar>\<rfloor> (- 1022)"

definition round64 :: "real \<Rightarrow> real" where
  "round64 x =
     (if x = 0 then 0
      else sgn x * of_int (rne (\<bar>x\<bar> / 2 powi (binade x - 52))) * 2 powi (binade x - 52))"

text \<open>A rounded magnitude of \<open>2\<^sup>1\<^sup>0\<^sup>2\<^sup>4\<close> or more overflows to an infinity.\<close>

definition fl :: "real \<Rightarrow> jsnum" where
  "fl x =
     (let y = round64 x
      in if 2 ^ 1024 \<le> \<bar>y\<bar> then (if 0 < y then PosInf else NegInf) else Fin y)"

text \<open>The value of a decimal literal of the source.\<close>

definition lit :: "real \<Rightarrow> jsnum" where
  "lit x = fl x"

fun js_neg :: "jsnum \<Rightarrow> jsnum" where
  "js_neg (Fin x) = Fin (- x)"
| "js_neg NaN = NaN"
| "js_neg PosInf = NegInf"
| "js_neg NegInf = PosInf"

fun js_add :: "jsnum \<Rightarrow> jsnum \<Rightarrow> jsnum" where
  "js_add NaN y = NaN"
| "js_add x NaN = NaN"
| "js_add (Fin x) (Fin y) = fl (x + y)"
| "js_add PosInf NegInf = NaN"
| "js_add NegInf PosInf = NaN"
| "js_add PosInf y = PosInf"
| "js_add x PosInf = PosInf"
| "js_add NegInf y = NegInf"
| "js_add x NegInf = NegInf"

definition js_sub :: "jsnum \<Rightarrow> jsnum \<Rightarrow> jsnum" where
  "js_sub x y = js_add x (js_neg y)"

fun js_mul :: "jsnum \<Rightarrow> jsnum \<Rightarrow> jsnum" where
  "js_mul NaN y = NaN"
| "js_mul x NaN = NaN"
| "js_mul (Fin x) (Fin y) = fl (x * y)"
| "js_mul (Fin x) PosInf = (if x = 0 then NaN else if 0 < x then PosInf else NegInf)"
| "js_mul (Fin x) NegInf = (if x = 0 then NaN else if 0 < x then NegInf else PosInf)"
| "js_mul PosInf (Fin y) = (if y = 0 then NaN else if 0 < y then PosInf else NegInf)"
| "js_mul NegInf (Fin y) = (if y = 0 then NaN else if 0 < y then NegInf else PosInf)"
| "js_mul PosInf PosInf = PosInf"
| "js_mul PosInf NegInf = NegInf"
| "js_mul NegInf PosInf = NegInf"
| "js_mul NegInf NegInf = PosInf"

definition isNaN :: "jsnum \<Rightarrow> bool" where
  "isNaN n = (n = NaN)"

definition isFinite :: "jsnum \<Rightarrow> bool" where
  "isFinite n = (case n of Fin x \<Rightarrow> True | NaN \<Rightarrow> False | PosInf \<Rightarrow> False | NegInf \<Rightarrow> False)"

text \<open>
  The values that reach the component: \<^verbatim>\<open>undefined\<close> and whatever \<^verbatim>\<open>JSON.parse\<close> can
  build. An object is its list of own properties, looked up with \<^const>\<open>map_of\<close>.
\<close>

datatype jsvalue =
    JUndefined
  | JNull
  | JBool bool
  | JNum jsnum
  | JString string
  | JArray "jsvalue list"
  | JObject "(string \<times> jsvalue) list"

text \<open>
  Three conversions of the language between strings and numbers round to the nearest
  binary64 value and are not part of the repository. They are parameters of the model:
  \<^verbatim>\<open>StringToNumber\<close> (the string case of \<^verbatim>\<open>Number(value)\<close>), \<^verbatim>\<open>Number::toString\<close> on a finite
  number, and the global \<^verbatim>\<open>parseFloat\<close>.
\<close>

record builtins =
  StringToNumber :: "string \<Rightarrow> jsnum"
  finiteToString :: "real \<Rightarrow> string"
  parseFloat :: "string \<Rightarrow> jsnum"

definition NumberToString :: "builtins \<Rightarrow> jsnum \<Rightarrow> string" where
  "NumberToString B n =
     (case n of Fin x \<Rightarrow> finiteToString B x | NaN \<Rightarrow> ''NaN''
      | PosInf \<Rightarrow> ''Infinity'' | NegInf \<Rightarrow> ''-Infinity'')"

fun join :: "string \<Rightarrow> string list \<Rightarrow> string" where
  "join sep [] = []"
| "join sep [s] = s"
| "join sep (s # t # ss) = s @ sep @ join sep (t # ss)"

text \<open>
  An expression gives a value or throws. The errors thrown in the component are the
  rejection of \<^verbatim>\<open>fetch\<close>, the \<^verbatim>\<open>Error("Failed to fetch")\<close> of line 63, the \<^verbatim>\<open>SyntaxError\<close> of
  \<^verbatim>\<open>response.json()\<close>, a \<^verbatim>\<open>TypeError\<close> and a \<^verbatim>\<open>ReferenceError\<close>.
\<close>

datatype js_error = NetworkError | FailedToFetch | JsonSyntaxError | TypeError | ReferenceError

text \<open>Evaluations made in order: their values, or the first error thrown.\<close>

fun allOrThrow :: "(js_error + 'a) list \<Rightarrow> js_error + 'a list" where
  "allOrThrow [] = Inr []"
| "allOrThrow (x # xs) =
     (case x of
        Inl e \<Rightarrow> Inl e
      | Inr v \<Rightarrow> (case allOrThrow xs of Inl e \<Rightarrow> Inl e | Inr vs \<Rightarrow> Inr (v # vs)))"

text \<open>
  \<^verbatim>\<open>ToString\<close>. An object or array is first made primitive (\<^verbatim>\<open>OrdinaryToPrimitive\<close>) by
  calling its \<^verbatim>\<open>toString\<close>, then its \<^verbatim>\<open>valueOf\<close>, when they are callable. No property of a
  parsed value is callable, and an own property hides the inherited method of its name.
  So an object with an own property \<^verbatim>\<open>toString\<close> has no callable \<^verbatim>\<open>toString\<close>, and its
  \<^verbatim>\<open>valueOf\<close> gives no primitive (the inherited one returns the object, an own one is not
  callable): the conversion throws a \<^verbatim>\<open>TypeError\<close>. Any other object is
  \<^verbatim>\<open>"[object Object]"\<close>, by the inherited \<^verbatim>\<open>toString\<close>. An array has only indices as own
  properties; its inherited \<^verbatim>\<open>toString\<close> is \<^verbatim>\<open>join\<close>: the comma-joined strings of its
  elements, \<^verbatim>\<open>undefined\<close> and \<^verbatim>\<open>null\<close> elements empty, and it throws when the conversion of an
  element does.
\<close>

fun ToString :: "builtins \<Rightarrow> jsvalue \<Rightarrow> js_error + string" where
  "ToString B JUndefined = Inr ''undefined''"
| "ToString B JNull = Inr ''null''"
| "ToString B (JBool b) = Inr (if b then ''true'' else ''false'')"
| "ToString B (JNum n) = Inr (NumberToString B n)"
| "ToString B (JString s) = Inr s"
| "ToString B (JArray xs) =
     (case allOrThrow
             (map (\<lambda>x. if x = JUndefined \<or> x = JNull then Inr [] else ToString B x) xs) of
        Inl e \<Rightarrow> Inl e
      | Inr ss \<Rightarrow> Inr (join '','' ss))"
| "ToString B (JObject kvs) =
     (if map_of kvs ''toString'' = None then Inr ''[object Object]'' else Inl TypeError)"

text \<open>
  \<^verbatim>\<open>Number(value)\<close>. An object or array is made primitive as above, \<^verbatim>\<open>valueOf\<close> being tried
  first: it gives no primitive, so the result is that of \<^verbatim>\<open>toString\<close>, or the \<^verbatim>\<open>TypeError\<close>.
  The string of an array is then converted; \<^verbatim>\<open>"[object Object]"\<close> is no numeric literal and
  gives \<^verbatim>\<open>NaN\<close>.
\<close>

fun Number :: "builtins \<Rightarrow> jsvalue \<Rightarrow> js_error + jsnum" where
  "Number B JUndefined = Inr NaN"
| "Number B JNull = Inr (Fin 0)"
| "Number B (JBool b) = Inr (if b then Fin 1 else Fin 0)"
| "Number B (JNum n) = Inr n"
| "Number B (JString s) = Inr (StringToNumber B s)"
| "Number B (JArray xs) =
     (case ToString B (JArray xs) of
        Inl e \<Rightarrow> Inl e
      | Inr s \<Rightarrow> Inr (StringToNumber B s))"
| "Number B (JObject kvs) =
     (if map_of kvs ''toString'' = None then Inr NaN else Inl TypeError)"

section \<open>The numeric safety helper and the formatters\<close>

text \<open>
  \<^verbatim>\<open>const safeNumber = (value: any, fallback = 0): number => {
    const num = Number(value)
    return isNaN(num) || !isFinite(num) ? fallback : num }\<close>

  What \<^verbatim>\<open>Number(value)\<close> throws is not caught here.
\<close>

definition safeNumber :: "builtins \<Rightarrow> jsvalue \<Rightarrow> jsnum \<Rightarrow> js_error + jsnum" where
  "safeNumber B v fallback =
     (case Number B v of
        Inl e \<Rightarrow> Inl e
      | Inr num \<Rightarrow> Inr (if isNaN num \<or> \<not> isFinite num then fallback else num))"

text \<open>The decimal digits of a natural number.\<close>

fun digitsOf :: "nat \<Rightarrow> string" where
  "digitsOf n =
     (if n < 10 then [''0123456789'' ! n]
      else digitsOf (n div 10) @ [''0123456789'' ! (n mod 10)])"

declare digitsOf.simps [simp del]

text \<open>
  \<^verbatim>\<open>Number.prototype.toFixed\<close> on a non-negative finite number below \<open>10\<^sup>2\<^sup>1\<close>: \<open>n\<close> is the
  integer for which \<open>n / 10\<^sup>f\<close> is nearest to \<open>x\<close>, the larger one of two; its digits are
  padded with zeros to \<open>f + 1\<close> places and the point is put before the last \<open>f\<close>.
\<close>

definition fixedDigits :: "real \<Rightarrow> nat \<Rightarrow> string" where
  "fixedDigits x f =
     (let n = nat \<lfloor>x * 10 ^ f + 1 / 2\<rfloor>;
          m = (if n = 0 then ''0'' else digitsOf n)
      in if f = 0 then m
         else let k = length m;
                  m' = (if k \<le> f then replicate (f + 1 - k) CHR ''0'' @ m else m);
                  k' = (if k \<le> f then f + 1 else k)
              in take (k' - f) m' @ ''.'' @ drop (k' - f) m')"

text \<open>
  \<^verbatim>\<open>x.toFixed(f)\<close>. A number that is not finite gives its \<^verbatim>\<open>ToString\<close>; a negative one
  gives \<^verbatim>\<open>"-"\<close> and the string of its absolute value; from \<open>10\<^sup>2\<^sup>1\<close> on the string is
  \<^verbatim>\<open>ToString\<close> of the number. The digit count \<open>f\<close> is a natural number: every call of the
  component passes 2 or 5, and the \<^verbatim>\<open>RangeError\<close> above 100 is not reached.
\<close>

definition toFixed :: "builtins \<Rightarrow> jsnum \<Rightarrow> nat \<Rightarrow> string" where
  "toFixed B x f =
     (case x of
        Fin r \<Rightarrow>
          (let s = (if r < 0 then ''-'' else '''');
               a = (if r < 0 then - r else r)
           in if a \<ge> 10 ^ 21 then s @ finiteToString B a else s @ fixedDigits a f)
      | NaN \<Rightarrow> NumberToString B x
      | PosInf \<Rightarrow> NumberToString B x
      | NegInf \<Rightarrow> NumberToString B x)"

text \<open>
  The two formatters of the component (lines 47 to 55); \<^verbatim>\<open>decimals\<close> defaults to 2
  in the source and is passed at every call.
\<close>

definition formatPrice :: "builtins \<Rightarrow> jsvalue \<Rightarrow> nat \<Rightarrow> js_error + string" where
  "formatPrice B price decimals =
     (case safeNumber B price (lit 0) of
        Inl e \<Rightarrow> Inl e
      | Inr safePrice \<Rightarrow> Inr (toFixed B safePrice decimals))"

definition formatChange :: "builtins \<Rightarrow> jsvalue \<Rightarrow> js_error + string" where
  "formatChange B change =
     (case safeNumber B change (lit 0) of
        Inl e \<Rightarrow> Inl e
      | Inr safeChange \<Rightarrow>
          Inr ((if js_gt safeChange (lit 0) then ''+'' else []) @ toFixed B safeChange 2
               @ ''%''))"

text \<open>The exported formatters of \<^verbatim>\<open>lib/utils.ts\<close> (lines 7 to 13), on a \<^verbatim>\<open>number\<close>.\<close>

definition formatPrice_exported :: "builtins \<Rightarrow> jsnum \<Rightarrow> nat \<Rightarrow> string" where
  "formatPrice_exported B price decimals = toFixed B price decimals"

definition formatChange_exported :: "builtins \<Rightarrow> jsnum \<Rightarrow> string" where
  "formatChange_exported B change =
     (if js_gt change (lit 0) then ''+'' else []) @ toFixed B change 2 @ ''%''"

text \<open>
  An instance of the parameters on which the definitions can be run. The theorems hold
  for every instance.
\<close>

definition sampleBuiltins :: builtins where
  "sampleBuiltins =
     \<lparr>StringToNumber = (\<lambda>s. NaN), finiteToString = (\<lambda>x. ''?''), parseFloat = (\<lambda>s. NaN)\<rparr>"

section \<open>Tokens, alerts and the state of the component\<close>

text \<open>
  \<^verbatim>\<open>interface TokenData\<close> and \<^verbatim>\<open>interface PriceAlert\<close> (lines 19 to 33). The fields of an
  alert carry the prefix \<open>alert\<close> where the source's name is taken (\<^verbatim>\<open>id\<close>, \<^verbatim>\<open>symbol\<close>,
  \<^verbatim>\<open>type\<close>).
\<close>

record TokenData =
  symbol :: string
  name :: string
  price :: jsnum
  change24h :: jsnum
  contract :: "string option"

datatype alert_type = Above | Below

record PriceAlert =
  alertId :: string
  alertSymbol :: string
  alertType :: alert_type
  threshold :: jsnum
  isActive :: bool

text \<open>A notification handed to the browser.\<close>

record notification =
  title :: string
  body :: string
  icon :: string

text \<open>
  The global \<^verbatim>\<open>Notification\<close>: not defined by the browser, or defined with one of the three
  values of \<^verbatim>\<open>Notification.permission\<close>.
\<close>

datatype permission = Granted | Denied | Default

datatype notification_global = NotDefined | Defined permission

text \<open>
  The \<^verbatim>\<open>useState\<close> cells of \<^verbatim>\<open>CryptoDashboard\<close> (lines 36 to 40), with the notifications
  shown and the errors given to \<^verbatim>\<open>console.error\<close> so far.
\<close>

record state =
  tokens :: "TokenData list"
  airToken :: "TokenData option"
  loading :: bool
  alerts :: "PriceAlert list"
  showAlertModal :: bool
  notifications :: "notification list"
  console :: "js_error list"

section \<open>The alert evaluator\<close>

definition typeString :: "alert_type \<Rightarrow> string" where
  "typeString t = (case t of Above \<Rightarrow> ''above'' | Below \<Rightarrow> ''below'')"

text \<open>
  The arguments of \<^verbatim>\<open>new Notification\<close> (lines 133 to 136), the two prices formatted in the
  order of the template. The title starts with U+1F6A8, written here as its four UTF-8
  bytes.
\<close>

definition alertNotification ::
  "builtins \<Rightarrow> string \<Rightarrow> PriceAlert \<Rightarrow> jsnum \<Rightarrow> js_error + notification" where
  "alertNotification B symb alert currentPrice =
     (case formatPrice B (JNum (threshold alert)) (if symb = ''AIR'' then 5 else 2) of
        Inl e \<Rightarrow> Inl e
      | Inr t \<Rightarrow>
          (case formatPrice B (JNum currentPrice) (if symb = ''AIR'' then 5 else 2) of
             Inl e \<Rightarrow> Inl e
           | Inr c \<Rightarrow>
               Inr \<lparr>title = [CHR 0xF0, CHR 0x9F, CHR 0x9A, CHR 0xA8] @ '' '' @ symb
                             @ '' Price Alert!'',
                    body = symb @ '' hit '' @ typeString (alertType alert) @ '' $'' @ t
                           @ ''! Current: $'' @ c,
                    icon = ''/icon-192.png''\<rparr>))"

text \<open>\<^verbatim>\<open>shouldTrigger\<close> (lines 126 to 128).\<close>

definition shouldTrigger :: "PriceAlert \<Rightarrow> jsnum \<Rightarrow> bool" where
  "shouldTrigger alert currentPrice =
     ((alertType alert = Above \<and> js_ge currentPrice (threshold alert)) \<or>
      (alertType alert = Below \<and> js_le currentPrice (threshold alert)))"

text \<open>
  The updater of lines 140 to 142:
  \<^verbatim>\<open>prev => prev.map(a => a.id === alert.id ? { ...a, isActive: false } : a)\<close>.
\<close>

definition deactivate :: "string \<Rightarrow> PriceAlert list \<Rightarrow> PriceAlert list" where
  "deactivate i prev = map (\<lambda>a. if alertId a = i then a\<lparr>isActive := False\<rparr> else a) prev"

text \<open>
  A statement that changes the state and may throw gives the error thrown, if any, and the
  state reached: what was notified and what was given to the setters before the throw
  stays. \<^verbatim>\<open>forEach\<close> runs its callback on the elements in order and stops at the first throw.
\<close>

fun forEach ::
  "('a \<Rightarrow> state \<Rightarrow> js_error option \<times> state) \<Rightarrow> 'a list \<Rightarrow> state
     \<Rightarrow> js_error option \<times> state" where
  "forEach f [] st = (None, st)"
| "forEach f (x # xs) st =
     (case f x st of
        (None, st') \<Rightarrow> forEach f xs st'
      | (Some e, st') \<Rightarrow> (Some e, st'))"

text \<open>
  The body of the \<^verbatim>\<open>forEach\<close> callback (lines 125 to 144) for one alert. Line 132 reads
  \<^verbatim>\<open>Notification.permission\<close> with no test that \<^verbatim>\<open>Notification\<close> is defined (line 161 has
  one): where it is not, the read throws a \<^verbatim>\<open>ReferenceError\<close>, before \<^verbatim>\<open>setAlerts\<close> is
  reached. In a window the constructor of a notification with these options does not
  throw.
\<close>

definition alertStep ::
  "builtins \<Rightarrow> notification_global \<Rightarrow> jsnum \<Rightarrow> string \<Rightarrow> PriceAlert \<Rightarrow> state
     \<Rightarrow> js_error option \<times> state" where
  "alertStep B env currentPrice symb alert st =
     (if alertSymbol alert = symb \<and> isActive alert then
        (if shouldTrigger alert currentPrice then
           (case env of
              NotDefined \<Rightarrow> (Some ReferenceError, st)
            | Defined perm \<Rightarrow>
                if perm = Granted then
                  (case alertNotification B symb alert currentPrice of
                     Inl e \<Rightarrow> (Some e, st)
                   | Inr n \<Rightarrow>
                       (None, st\<lparr>notifications := notifications st @ [n],
                                 alerts := deactivate (alertId alert) (alerts st)\<rparr>))
                else (None, st\<lparr>alerts := deactivate (alertId alert) (alerts st)\<rparr>))
         else (None, st))
      else (None, st))"

text \<open>
  \<^verbatim>\<open>checkPriceAlerts\<close> (lines 123 to 146). The list it iterates is the \<^verbatim>\<open>alerts\<close> binding of
  the render in which the function was created, here the argument \<open>seen\<close>; the updaters
  given to \<^verbatim>\<open>setAlerts\<close> run, in order, on the list of the state. The global \<^verbatim>\<open>Notification\<close>
  is the argument \<open>env\<close>.
\<close>

definition checkPriceAlerts ::
  "builtins \<Rightarrow> PriceAlert list \<Rightarrow> notification_global \<Rightarrow> jsnum \<Rightarrow> string \<Rightarrow> state
     \<Rightarrow> js_error option \<times> state" where
  "checkPriceAlerts B seen env currentPrice symb st =
     forEach (alertStep B env currentPrice symb) seen st"


section \<open>Creating and deleting alerts\<close>

text \<open>\<^verbatim>\<open>Date.now().toString()\<close>: the decimal string of the clock's milliseconds.\<close>

definition intToString :: "int \<Rightarrow> string" where
  "intToString i = (if i < 0 then ''-'' @ digitsOf (nat (- i)) else digitsOf (nat i))"

text \<open>\<^verbatim>\<open>createAlert\<close> (lines 148 to 157); \<open>now\<close> is the value of \<^verbatim>\<open>Date.now()\<close>.\<close>

definition createAlert :: "int \<Rightarrow> string \<Rightarrow> alert_type \<Rightarrow> jsnum \<Rightarrow> state \<Rightarrow> state" where
  "createAlert now symb t thr st =
     (let newAlert = \<lparr>alertId = intToString now, alertSymbol = symb, alertType = t,
                       threshold = thr, isActive = True\<rparr>
      in st\<lparr>alerts := alerts st @ [newAlert]\<rparr>)"

text \<open>The \<^verbatim>\<open>useState\<close> cells of \<^verbatim>\<open>AlertModal\<close> (lines 171 to 173).\<close>

record modal =
  selectedSymbol :: string
  selectedType :: alert_type
  thresholdText :: string

text \<open>\<^verbatim>\<open>handleSubmit\<close> (lines 178 to 186).\<close>

definition handleSubmit :: "builtins \<Rightarrow> int \<Rightarrow> modal \<Rightarrow> state \<Rightarrow> modal \<times> state" where
  "handleSubmit B now m st =
     (let thresholdNum = parseFloat B (thresholdText m)
      in if js_gt thresholdNum (lit 0)
         then (m\<lparr>thresholdText := []\<rparr>,
               (createAlert now (selectedSymbol m) (selectedType m) thresholdNum st)
                 \<lparr>showAlertModal := False\<rparr>)
         else (m, st))"

text \<open>
  The click handler of line 430: \<^verbatim>\<open>setAlerts(prev => prev.filter(a => a.id !== alert.id))\<close>.
\<close>

definition deleteAlert :: "string \<Rightarrow> state \<Rightarrow> state" where
  "deleteAlert i st = st\<lparr>alerts := filter (\<lambda>a. alertId a \<noteq> i) (alerts st)\<rparr>"

section \<open>The fetch cycle\<close>

text \<open>
  Reading a property of a value that is neither \<^verbatim>\<open>undefined\<close> nor \<^verbatim>\<open>null\<close>. The keys read
  by the component (\<^verbatim>\<open>ethereum\<close>, \<^verbatim>\<open>bitcoin\<close>, \<^verbatim>\<open>usd-coin\<close>, \<^verbatim>\<open>chainlink\<close>, \<^verbatim>\<open>uniswap\<close>, \<^verbatim>\<open>usd\<close>,
  \<^verbatim>\<open>usd_24h_change\<close>) are properties of no string, array or prototype.
\<close>

definition member :: "jsvalue \<Rightarrow> string \<Rightarrow> jsvalue" where
  "member v k =
     (case v of
        JObject kvs \<Rightarrow> (case map_of kvs k of Some x \<Rightarrow> x | None \<Rightarrow> JUndefined)
      | JUndefined \<Rightarrow> JUndefined | JNull \<Rightarrow> JUndefined | JBool b \<Rightarrow> JUndefined
      | JNum n \<Rightarrow> JUndefined | JString s \<Rightarrow> JUndefined | JArray xs \<Rightarrow> JUndefined)"

text \<open>Optional chaining \<^verbatim>\<open>v?.k\<close>.\<close>

definition optMember :: "jsvalue \<Rightarrow> string \<Rightarrow> jsvalue" where
  "optMember v k = (if v = JUndefined \<or> v = JNull then JUndefined else member v k)"

text \<open>
  One element of \<^verbatim>\<open>cryptoTokens\<close> (lines 67 to 98): the price is computed before the change,
  and a throw of either is the throw of the element.
\<close>

definition tokenOf ::
  "builtins \<Rightarrow> jsvalue \<Rightarrow> string \<Rightarrow> string \<Rightarrow> string \<Rightarrow> jsnum \<Rightarrow> js_error + TokenData" where
  "tokenOf B data key symb nm fallback =
     (case safeNumber B (optMember (member data key) ''usd'') fallback of
        Inl e \<Rightarrow> Inl e
      | Inr p \<Rightarrow>
          (case safeNumber B (optMember (member data key) ''usd_24h_change'') (lit 0) of
             Inl e \<Rightarrow> Inl e
           | Inr c \<Rightarrow>
               Inr \<lparr>symbol = symb, name = nm, price = p, change24h = c, contract = None\<rparr>))"

definition cryptoTokensOf :: "builtins \<Rightarrow> jsvalue \<Rightarrow> js_error + TokenData list" where
  "cryptoTokensOf B data =
     allOrThrow
       [tokenOf B data ''ethereum'' ''ETH'' ''Ethereum'' (lit 2340),
        tokenOf B data ''bitcoin'' ''BTC'' ''Bitcoin'' (lit 43250),
        tokenOf B data ''usd-coin'' ''USDC'' ''USD Coin'' (lit 1.0),
        tokenOf B data ''chainlink'' ''LINK'' ''Chainlink'' (lit 14.85),
        tokenOf B data ''uniswap'' ''UNI'' ''Uniswap'' (lit 6.42)]"

text \<open>
  \<^verbatim>\<open>airTokenData\<close> (lines 100 to 108); \<open>r1\<close> and \<open>r2\<close> are the two values of
  \<^verbatim>\<open>Math.random()\<close>, in the order of the calls.
\<close>

definition airTokenDataOf :: "builtins \<Rightarrow> real \<Rightarrow> real \<Rightarrow> js_error + TokenData" where
  "airTokenDataOf B r1 r2 =
     (let currentAirPrice =
            js_add (lit 0.00676) (js_mul (js_sub (Fin r1) (lit 0.5)) (lit 0.00005))
      in case safeNumber B (JNum currentAirPrice) (lit 0.00676) of
           Inl e \<Rightarrow> Inl e
         | Inr p \<Rightarrow>
             (case safeNumber B
                     (JNum (js_add (lit 1.8) (js_mul (js_sub (Fin r2) (lit 0.5)) (lit 3))))
                     (lit 1.8) of
                Inl e \<Rightarrow> Inl e
              | Inr c \<Rightarrow>
                  Inr \<lparr>symbol = ''AIR'', name = ''AIR Token'', price = p, change24h = c,
                       contract = Some ''0x8164b40840418c77a68f6f9eedb5202b36d8b288''\<rparr>))"

text \<open>
  What \<^verbatim>\<open>fetch\<close> and \<^verbatim>\<open>response.json()\<close> give: the request is rejected, or there is a
  response with its \<^verbatim>\<open>ok\<close> flag and, when its text is JSON, the parsed value.
\<close>

datatype fetch_outcome = FetchRejected | FetchResponse bool "jsvalue option"

text \<open>
  The \<^verbatim>\<open>try\<close> block of \<^verbatim>\<open>fetchCryptoData\<close> (lines 58 to 116): the error thrown, if any, and
  the state reached, which after the three setters is the state of a successful cycle.
  Reading \<^verbatim>\<open>data.ethereum\<close> of \<^verbatim>\<open>null\<close> throws a \<^verbatim>\<open>TypeError\<close>. The token list, then the
  synthesized token are built before the first call of the evaluator, and the evaluator
  is called before the setters.
\<close>

definition fetchTry ::
  "builtins \<Rightarrow> PriceAlert list \<Rightarrow> notification_global \<Rightarrow> fetch_outcome \<Rightarrow> real \<Rightarrow> real
     \<Rightarrow> state \<Rightarrow> js_error option \<times> state" where
  "fetchTry B seen env outcome r1 r2 st =
     (case outcome of
        FetchRejected \<Rightarrow> (Some NetworkError, st)
      | FetchResponse ok parsed \<Rightarrow>
          if \<not> ok then (Some FailedToFetch, st)
          else (case parsed of
                  None \<Rightarrow> (Some JsonSyntaxError, st)
                | Some data \<Rightarrow>
                    if data = JNull \<or> data = JUndefined then (Some TypeError, st)
                    else
                      (case cryptoTokensOf B data of
                         Inl e \<Rightarrow> (Some e, st)
                       | Inr cryptoTokens \<Rightarrow>
                           (case airTokenDataOf B r1 r2 of
                              Inl e \<Rightarrow> (Some e, st)
                            | Inr airTokenData \<Rightarrow>
                                (case checkPriceAlerts B seen env (price airTokenData)
                                        ''AIR'' st of
                                   (Some e, st1) \<Rightarrow> (Some e, st1)
                                 | (None, st1) \<Rightarrow>
                                     (case forEach
                                             (\<lambda>token. checkPriceAlerts B seen env (price token)
                                                         (symbol token))
                                             cryptoTokens st1 of
                                        (Some e, st2) \<Rightarrow> (Some e, st2)
                                      | (None, st2) \<Rightarrow>
                                          (None,
                                           st2\<lparr>tokens := cryptoTokens,
                                               airToken := Some airTokenData,
                                               loading := False\<rparr>)))))))"

text \<open>
  \<^verbatim>\<open>fetchCryptoData\<close> (lines 57 to 121): the \<^verbatim>\<open>catch\<close> logs the error and clears \<^verbatim>\<open>loading\<close>,
  in the state the \<^verbatim>\<open>try\<close> block reached.
\<close>

definition fetchCryptoData ::
  "builtins \<Rightarrow> PriceAlert list \<Rightarrow> notification_global \<Rightarrow> fetch_outcome \<Rightarrow> real \<Rightarrow> real
     \<Rightarrow> state \<Rightarrow> state" where
  "fetchCryptoData B seen env outcome r1 r2 st =
     (case fetchTry B seen env outcome r1 r2 st of
        (Some error, st') \<Rightarrow> st'\<lparr>console := console st' @ [error], loading := False\<rparr>
      | (None, st') \<Rightarrow> st')"

text \<open>
  The effect of lines 159 to 168 has an empty dependency list: it runs once, after the
  first render, and calls and registers with \<^verbatim>\<open>setInterval\<close> the \<^verbatim>\<open>fetchCryptoData\<close> of that
  render. The \<^verbatim>\<open>alerts\<close> that this function and its \<^verbatim>\<open>checkPriceAlerts\<close> close over is the
  initial value of line 39, the empty list.
\<close>

definition intervalCycle ::
  "builtins \<Rightarrow> notification_global \<Rightarrow> fetch_outcome \<Rightarrow> real \<Rightarrow> real \<Rightarrow> state \<Rightarrow> state" where
  "intervalCycle B env outcome r1 r2 st = fetchCryptoData B [] env outcome r1 r2 st"

section \<open>Initial state and the trigger condition\<close>

text \<open>The initial values given to \<^verbatim>\<open>useState\<close> (lines 36 to 40); nothing shown or logged yet.\<close>

definition initialState :: state where
  "initialState =
     \<lparr>tokens = [], airToken = None, loading = True, alerts = [], showAlertModal = False,
      notifications = [], console = []\<rparr>"

text \<open>
  The two conditions of lines 125 and 130 together: the callback reaches line 132, which
  reads \<^verbatim>\<open>Notification.permission\<close> before it notifies and deactivates.
\<close>

definition fires :: "string \<Rightarrow> jsnum \<Rightarrow> PriceAlert \<Rightarrow> bool" where
  "fires symb currentPrice alert =
     (alertSymbol alert = symb \<and> isActive alert \<and> shouldTrigger alert currentPrice)"

text \<open>
  The alerts of the iterated list whose callback reaches \<^verbatim>\<open>setAlerts\<close>: those that fire,
  where \<^verbatim>\<open>Notification\<close> is defined; none where it is not, as the first that fires throws.
\<close>

definition reached ::
  "notification_global \<Rightarrow> string \<Rightarrow> jsnum \<Rightarrow> PriceAlert list \<Rightarrow> PriceAlert list" where
  "reached env symb currentPrice seen =
     (case env of NotDefined \<Rightarrow> [] | Defined perm \<Rightarrow> filter (fires symb currentPrice) seen)"

section \<open>Auxiliary facts\<close>

subsection \<open>Rounding to binary64\<close>

lemma rne_cases: "rne y = \<lfloor>y\<rfloor> \<or> rne y = \<lfloor>y\<rfloor> + 1"
  by (simp add: rne_def Let_def)

lemma rne_mono: "x \<le> y \<Longrightarrow> rne x \<le> rne y"
proof -
  assume le: "x \<le> y"
  then have fl: "\<lfloor>x\<rfloor> \<le> \<lfloor>y\<rfloor>" by (rule floor_mono)
  show ?thesis
  proof (cases "\<lfloor>x\<rfloor> = \<lfloor>y\<rfloor>")
    case True
    with le show ?thesis by (auto simp: rne_def Let_def)
  next
    case False
    with fl have "\<lfloor>x\<rfloor> + 1 \<le> \<lfloor>y\<rfloor>" by simp
    moreover have "rne x \<le> \<lfloor>x\<rfloor> + 1" using rne_cases[of x] by auto
    moreover have "\<lfloor>y\<rfloor> \<le> rne y" using rne_cases[of y] by auto
    ultimately show ?thesis by linarith
  qed
qed

lemma rne_of_int: "rne (of_int k) = k"
  by (simp add: rne_def)

lemma rne_ge: "of_int k \<le> y \<Longrightarrow> k \<le> rne y"
  using rne_mono[of "of_int k" y] by (simp add: rne_of_int)

lemma rne_le: "y \<le> of_int k \<Longrightarrow> rne y \<le> k"
  using rne_mono[of y "of_int k"] by (simp add: rne_of_int)

lemma powr_powi: "(2::real) powr (of_int k) = 2 powi k"
  by (simp add: powr_real_of_int power_int_def power_one_over inverse_eq_divide)

lemma floor_log2_iff:
  "0 < x \<Longrightarrow> \<lfloor>log 2 x\<rfloor> = k \<longleftrightarrow> 2 powi k \<le> x \<and> x < 2 powi (k + 1)"
  using floor_log_eq_powr_iff[of x 2 k] powr_powi[of k] powr_powi[of "k + 1"] by simp

lemma binade_eq:
  assumes "2 powi k \<le> \<bar>x\<bar>" and "\<bar>x\<bar> < 2 powi (k + 1)" and "- 1022 \<le> k"
  shows "binade x = k"
proof -
  have "0 < (2::real) powi k" by simp
  with assms(1) have p: "0 < \<bar>x\<bar>" by linarith
  from floor_log2_iff[OF p, of k] assms(1,2) have "\<lfloor>log 2 \<bar>x\<bar>\<rfloor> = k" by simp
  with assms(3) show ?thesis by (simp add: binade_def)
qed

lemma round64_eval:
  assumes "0 < x" and "2 powi k \<le> x" and "x < 2 powi (k + 1)" and "- 1022 \<le> k"
  shows "round64 x = of_int (rne (x / 2 powi (k - 52))) * 2 powi (k - 52)"
proof -
  have "binade x = k" using assms by (intro binade_eq) simp_all
  with assms(1) show ?thesis by (simp add: round64_def)
qed

lemma binade_neg: "binade (- x) = binade x"
  by (simp add: binade_def)

lemma round64_neg: "round64 (- x) = - round64 x"
  by (simp add: round64_def binade_neg sgn_minus)

lemma binade_upper:
  assumes "x \<noteq> 0"
  shows "\<bar>x\<bar> < 2 powi (binade x + 1)"
proof -
  have p: "0 < \<bar>x\<bar>" using assms by simp
  have "\<bar>x\<bar> < 2 powi (\<lfloor>log 2 \<bar>x\<bar>\<rfloor> + 1)"
    using floor_log2_iff[OF p, of "\<lfloor>log 2 \<bar>x\<bar>\<rfloor>"] by simp
  also have "\<dots> \<le> 2 powi (binade x + 1)"
    by (rule power_int_increasing) (simp_all add: binade_def)
  finally show ?thesis .
qed

lemma binade_lower:
  assumes "x \<noteq> 0" and "- 1022 < binade x"
  shows "2 powi (binade x) \<le> \<bar>x\<bar>"
proof -
  have p: "0 < \<bar>x\<bar>" using assms(1) by simp
  from assms(2) have "binade x = \<lfloor>log 2 \<bar>x\<bar>\<rfloor>" by (simp add: binade_def max_def split: if_splits)
  with floor_log2_iff[OF p, of "\<lfloor>log 2 \<bar>x\<bar>\<rfloor>"] show ?thesis by simp
qed

lemma binade_mono:
  assumes "0 < x" and "x \<le> y"
  shows "binade x \<le> binade y"
proof -
  have "log 2 x \<le> log 2 y" using assms by simp
  then have fl: "\<lfloor>log 2 x\<rfloor> \<le> \<lfloor>log 2 y\<rfloor>" by (rule floor_mono)
  have a: "\<bar>x\<bar> = x" "\<bar>y\<bar> = y" using assms by simp_all
  show ?thesis unfolding binade_def a by (rule max.mono[OF fl order_refl])
qed

lemma scaled_split: "(2::real) powi (e + 1) = 2 ^ 53 * 2 powi (e - 52)"
proof -
  have "e + 1 = int 53 + (e - 52)" by simp
  then have "(2::real) powi (e + 1) = 2 powi (int 53 + (e - 52))" by (rule arg_cong)
  also have "\<dots> = 2 powi (int 53) * 2 powi (e - 52)" by (rule power_int_add) simp
  also have "(2::real) powi (int 53) = 2 ^ 53" by (rule power_int_of_nat)
  finally show ?thesis .
qed

lemma scaled_split': "(2::real) powi e = 2 ^ 52 * 2 powi (e - 52)"
proof -
  have "e = int 52 + (e - 52)" by simp
  then have "(2::real) powi e = 2 powi (int 52 + (e - 52))" by (rule arg_cong)
  also have "\<dots> = 2 powi (int 52) * 2 powi (e - 52)" by (rule power_int_add) simp
  also have "(2::real) powi (int 52) = 2 ^ 52" by (rule power_int_of_nat)
  finally show ?thesis .
qed

lemma round64_pos_upper:
  assumes "0 < x"
  shows "round64 x \<le> 2 powi (binade x + 1)"
proof -
  let ?u = "(2::real) powi (binade x - 52)"
  have u: "0 < ?u" by simp
  have "x < 2 powi (binade x + 1)" using binade_upper[of x] assms by simp
  then have "x < 2 ^ 53 * ?u" by (simp only: scaled_split)
  then have "x / ?u < 2 ^ 53" using u by (simp only: pos_divide_less_eq)
  then have "x / ?u \<le> of_int (2 ^ 53)" by simp
  then have "rne (x / ?u) \<le> 2 ^ 53" by (rule rne_le)
  then have "real_of_int (rne (x / ?u)) \<le> real_of_int (2 ^ 53)" by (simp only: of_int_le_iff)
  then have "real_of_int (rne (x / ?u)) \<le> 2 ^ 53" by simp
  then have "real_of_int (rne (x / ?u)) * ?u \<le> 2 ^ 53 * ?u" using u by (simp only: mult_le_cancel_right_pos)
  then have "real_of_int (rne (x / ?u)) * ?u \<le> 2 powi (binade x + 1)" by (simp only: scaled_split)
  with assms show ?thesis by (simp add: round64_def)
qed

lemma round64_pos_lower:
  assumes "0 < x" and "- 1022 < binade x"
  shows "2 powi (binade x) \<le> round64 x"
proof -
  let ?u = "(2::real) powi (binade x - 52)"
  have u: "0 < ?u" by simp
  have "2 powi (binade x) \<le> x" using binade_lower[of x] assms by simp
  then have "2 ^ 52 * ?u \<le> x" by (simp only: scaled_split'[symmetric])
  then have "2 ^ 52 \<le> x / ?u" using u by (simp only: pos_le_divide_eq)
  then have "of_int (2 ^ 52) \<le> x / ?u" by simp
  then have "2 ^ 52 \<le> rne (x / ?u)" by (rule rne_ge)
  then have "real_of_int (2 ^ 52) \<le> real_of_int (rne (x / ?u))" by (simp only: of_int_le_iff)
  then have "2 ^ 52 \<le> real_of_int (rne (x / ?u))" by simp
  then have "2 ^ 52 * ?u \<le> real_of_int (rne (x / ?u)) * ?u" using u by (simp only: mult_le_cancel_right_pos)
  then have "2 powi (binade x) \<le> real_of_int (rne (x / ?u)) * ?u" by (simp only: scaled_split'[symmetric])
  with assms(1) show ?thesis by (simp add: round64_def)
qed

lemma round64_nonneg: "0 \<le> x \<Longrightarrow> 0 \<le> round64 x"
proof -
  assume "0 \<le> x"
  show ?thesis
  proof (cases "x = 0")
    case True
    then show ?thesis by (simp add: round64_def)
  next
    case False
    with \<open>0 \<le> x\<close> have p: "0 < x" by simp
    have "0 \<le> x / 2 powi (binade x - 52)" using p by simp
    then have "of_int 0 \<le> x / 2 powi (binade x - 52)" by simp
    then have "0 \<le> rne (x / 2 powi (binade x - 52))" by (rule rne_ge)
    with p show ?thesis by (simp add: round64_def)
  qed
qed

lemma round64_mono_pos:
  assumes "0 < x" and "x \<le> y"
  shows "round64 x \<le> round64 y"
proof -
  have y: "0 < y" using assms by simp
  have b: "binade x \<le> binade y" using assms by (rule binade_mono)
  show ?thesis
  proof (cases "binade x = binade y")
    case True
    let ?u = "(2::real) powi (binade y - 52)"
    have u: "0 < ?u" by simp
    have "x / ?u \<le> y / ?u" using assms(2) u by (simp add: divide_right_mono)
    then have "rne (x / ?u) \<le> rne (y / ?u)" by (rule rne_mono)
    then have "real_of_int (rne (x / ?u)) * ?u \<le> real_of_int (rne (y / ?u)) * ?u" using u by simp
    with assms(1) y True show ?thesis by (simp add: round64_def)
  next
    case False
    with b have lt: "binade x + 1 \<le> binade y" by simp
    have m: "- 1022 \<le> binade x" by (simp add: binade_def)
    with lt have "- 1022 < binade y" by simp
    with y have "2 powi (binade y) \<le> round64 y" by (rule round64_pos_lower)
    moreover have "round64 x \<le> 2 powi (binade x + 1)" using assms(1) by (rule round64_pos_upper)
    moreover have "(2::real) powi (binade x + 1) \<le> 2 powi (binade y)"
      using lt by (intro power_int_increasing) simp_all
    ultimately show ?thesis by linarith
  qed
qed

lemma round64_mono: "x \<le> y \<Longrightarrow> round64 x \<le> round64 y"
proof -
  assume le: "x \<le> y"
  consider "0 < x" | "x \<le> 0" "0 \<le> y" | "y < 0" by linarith
  then show ?thesis
  proof cases
    case 1
    then show ?thesis using le by (rule round64_mono_pos)
  next
    case 2
    have "0 \<le> round64 (- x)" using 2(1) by (intro round64_nonneg) simp
    then have "round64 x \<le> 0" by (simp add: round64_neg)
    moreover have "0 \<le> round64 y" using 2(2) by (rule round64_nonneg)
    ultimately show ?thesis by linarith
  next
    case 3
    then have "0 < - y" "- y \<le> - x" using le by simp_all
    then have "round64 (- y) \<le> round64 (- x)" by (rule round64_mono_pos)
    then show ?thesis by (simp add: round64_neg)
  qed
qed

lemma powi_neg_numeral: "(2::real) powi (- numeral n) = 1 / 2 ^ numeral n"
  by (simp add: power_int_def inverse_eq_divide power_one_over)

lemma powi_numeral: "(2::real) powi (numeral n) = 2 ^ numeral n"
  by (simp add: power_int_def)

lemma rne_eval:
  assumes "of_int n - 1 / 2 < y" and "y < of_int n + 1 / 2"
  shows "rne y = n"
proof -
  consider "of_int n \<le> y" | "y < of_int n" by linarith
  then show ?thesis
  proof cases
    case 1
    with assms(2) have "\<lfloor>y\<rfloor> = n" by (intro floor_unique) linarith+
    with assms(2) show ?thesis by (simp add: rne_def Let_def)
  next
    case 2
    have r: "real_of_int (n - 1) = real_of_int n - 1" by simp
    have "real_of_int (n - 1) \<le> y" "y < real_of_int (n - 1) + 1"
      unfolding r using 2 assms(1) by linarith+
    then have f: "\<lfloor>y\<rfloor> = n - 1" by (rule floor_unique)
    from assms(1) have "1 / 2 < y - of_int (n - 1)" by simp
    with f show ?thesis by (simp add: rne_def Let_def)
  qed
qed

lemma round64_exact:
  assumes "0 < x" and "2 powi k \<le> x" and "x < 2 powi (k + 1)" and "- 1022 \<le> k"
    and "x / 2 powi (k - 52) = of_int n"
  shows "round64 x = x"
proof -
  have u: "(2::real) powi (k - 52) \<noteq> 0" by simp
  have "round64 x = of_int (rne (x / 2 powi (k - 52))) * 2 powi (k - 52)"
    using assms(1-4) by (rule round64_eval)
  also have "\<dots> = of_int n * 2 powi (k - 52)" by (simp only: assms(5) rne_of_int)
  also have "\<dots> = x / 2 powi (k - 52) * 2 powi (k - 52)" by (simp only: assms(5))
  also have "\<dots> = x" using u by simp
  finally show ?thesis .
qed

lemma round64_nearest:
  assumes "0 < x" and "2 powi k \<le> x" and "x < 2 powi (k + 1)" and "- 1022 \<le> k"
    and "of_int n - 1 / 2 < x / 2 powi (k - 52)" and "x / 2 powi (k - 52) < of_int n + 1 / 2"
  shows "round64 x = of_int n * 2 powi (k - 52)"
proof -
  have "round64 x = of_int (rne (x / 2 powi (k - 52))) * 2 powi (k - 52)"
    using assms(1-4) by (rule round64_eval)
  also have "rne (x / 2 powi (k - 52)) = n" using assms(5,6) by (rule rne_eval)
  finally show ?thesis .
qed

lemma round64_0: "round64 0 = 0"
  by (simp add: round64_def)

lemma round64_two_53: "round64 (2 ^ 53) = 2 ^ 53"
  by (rule round64_exact[where k = 53 and n = "2 ^ 52"]) (simp_all add: powi_numeral)

lemma fl_small:
  assumes "\<bar>x\<bar> \<le> 2 ^ 53"
  shows "fl x = Fin (round64 x)"
proof -
  have "round64 x \<le> round64 (2 ^ 53)" using assms by (intro round64_mono) simp
  then have hi: "round64 x \<le> 2 ^ 53" by (simp only: round64_two_53)
  have "round64 (- (2 ^ 53)) \<le> round64 x" using assms by (intro round64_mono) simp
  then have lo: "- (2 ^ 53) \<le> round64 x" by (simp only: round64_neg round64_two_53)
  have "(2::real) ^ 53 < 2 ^ 1024" by (rule power_strict_increasing) simp_all
  with hi lo have "\<bar>round64 x\<bar> < 2 ^ 1024" by linarith
  then show ?thesis by (simp add: fl_def Let_def)
qed

lemma lit_small: "\<bar>x\<bar> \<le> 2 ^ 53 \<Longrightarrow> lit x = Fin (round64 x)"
  by (simp add: lit_def fl_small)

lemma lit_0 [simp]: "lit 0 = Fin 0"
  by (simp add: lit_small round64_0)

lemma round64_half: "round64 (1 / 2) = 1 / 2"
  by (rule round64_exact[where k = "- 1" and n = "2 ^ 52"]) (simp_all add: powi_neg_numeral power_int_minus)

lemma round64_1: "round64 1 = 1"
  by (rule round64_exact[where k = 0 and n = "2 ^ 52"]) (simp_all add: powi_neg_numeral)

lemma round64_3: "round64 3 = 3"
  by (rule round64_exact[where k = 1 and n = "3 * 2 ^ 51"]) (simp_all add: powi_neg_numeral)

lemma round64_3_2: "round64 (3 / 2) = 3 / 2"
  by (rule round64_exact[where k = 0 and n = "3 * 2 ^ 51"]) (simp_all add: powi_neg_numeral)

lemma round64_2340: "round64 2340 = 2340"
  by (rule round64_exact[where k = 11 and n = "2340 * 2 ^ 41"]) (simp_all add: powi_neg_numeral powi_numeral)

lemma round64_43250: "round64 43250 = 43250"
  by (rule round64_exact[where k = 15 and n = "43250 * 2 ^ 37"]) (simp_all add: powi_neg_numeral powi_numeral)

lemma round64_3000: "round64 3000 = 3000"
  by (rule round64_exact[where k = 11 and n = "3000 * 2 ^ 41"]) (simp_all add: powi_neg_numeral powi_numeral)

lemma round64_5: "round64 5 = 5"
  by (rule round64_exact[where k = 2 and n = "5 * 2 ^ 50"]) (simp_all add: powi_neg_numeral powi_numeral)

lemma lit_exact:
  "lit 2340 = Fin 2340" "lit 43250 = Fin 43250" "lit 1.0 = Fin 1" "lit 0.5 = Fin (1 / 2)"
  "lit 3 = Fin 3" "lit 3000 = Fin 3000" "lit 5 = Fin 5"
  by (simp_all add: lit_small round64_2340 round64_43250 round64_1 round64_half round64_3
      round64_3000 round64_5)

lemma round64_676: "round64 0.00676 = 3896874685571143 / 2 ^ 59"
  using round64_nearest[where x = "0.00676" and k = "- 8" and n = 7793749371142286]
  by (simp add: powi_neg_numeral)

lemma round64_5e5: "round64 0.00005 = 7378697629483821 / 2 ^ 67"
  using round64_nearest[where x = "0.00005" and k = "- 15" and n = 7378697629483821]
  by (simp add: powi_neg_numeral)

lemma round64_1_8: "round64 1.8 = 8106479329266893 / 2 ^ 52"
  using round64_nearest[where x = "1.8" and k = 0 and n = 8106479329266893]
  by (simp add: powi_neg_numeral)

lemma lit_air:
  "lit 0.00676 = Fin (3896874685571143 / 2 ^ 59)"
  "lit 0.00005 = Fin (7378697629483821 / 2 ^ 67)"
  "lit 1.8 = Fin (8106479329266893 / 2 ^ 52)"
proof -
  have "lit 0.00676 = Fin (round64 0.00676)" by (rule lit_small) simp
  then show "lit 0.00676 = Fin (3896874685571143 / 2 ^ 59)" by (simp only: round64_676)
  have "lit 0.00005 = Fin (round64 0.00005)" by (rule lit_small) simp
  then show "lit 0.00005 = Fin (7378697629483821 / 2 ^ 67)" by (simp only: round64_5e5)
  have "lit 1.8 = Fin (round64 1.8)" by (rule lit_small) simp
  then show "lit 1.8 = Fin (8106479329266893 / 2 ^ 52)" by (simp only: round64_1_8)
qed

lemma round64_2999_99: "round64 2999.99 = 6597047776423444 / 2 ^ 41"
  using round64_nearest[where x = "2999.99" and k = 11 and n = 6597047776423444]
  by (simp add: powi_neg_numeral powi_numeral)

lemma round64_3_456: "round64 3.456 = 7782220156096217 / 2 ^ 51"
  using round64_nearest[where x = "3.456" and k = 1 and n = 7782220156096217]
  by (simp add: powi_neg_numeral powi_numeral)

lemma lit_examples:
  "lit 2999.99 = Fin (6597047776423444 / 2 ^ 41)"
  "lit 3000.00 = Fin 3000"
  "lit (- 3.456) = Fin (- (7782220156096217 / 2 ^ 51))"
proof -
  have "lit 2999.99 = Fin (round64 2999.99)" by (rule lit_small) simp
  then show "lit 2999.99 = Fin (6597047776423444 / 2 ^ 41)" by (simp only: round64_2999_99)
  show "lit 3000.00 = Fin 3000" by (simp add: lit_small round64_3000)
  have "lit (- 3.456) = Fin (round64 (- 3.456))" by (rule lit_small) simp
  then show "lit (- 3.456) = Fin (- (7782220156096217 / 2 ^ 51))"
    by (simp only: round64_neg round64_3_456)
qed

subsection \<open>The evaluator on the alert list\<close>

lemma isNaN_or_not_finite: "(isNaN n \<or> \<not> isFinite n) = (\<not> isFinite n)"
  by (cases n) (simp_all add: isNaN_def isFinite_def)

lemma safeNumber_JNum: "safeNumber B (JNum n) fb = Inr (if isFinite n then n else fb)"
  by (simp add: safeNumber_def isNaN_or_not_finite)

lemma formatPrice_JNum:
  "formatPrice B (JNum n) d = Inr (toFixed B (if isFinite n then n else lit 0) d)"
  by (simp add: formatPrice_def safeNumber_JNum del: lit_0)

lemma alertNotification_Inr: "\<exists>n. alertNotification B s a p = Inr n"
  by (simp add: alertNotification_def formatPrice_JNum del: lit_0)

lemma alertNotification_projr:
  "alertNotification B s a p = Inr (projr (alertNotification B s a p))"
  using alertNotification_Inr[of B s a p] by auto

lemma alertStep_NotDefined:
  "alertStep B NotDefined p s a st = (if fires s p a then Some ReferenceError else None, st)"
  by (simp add: alertStep_def fires_def)

lemma alertStep_Defined_fst: "fst (alertStep B (Defined perm) p s a st) = None"
  using alertNotification_Inr[of B s a p] by (auto simp: alertStep_def)

lemma alertStep_Defined:
  "alertStep B (Defined perm) p s a st = (None, snd (alertStep B (Defined perm) p s a st))"
  using alertStep_Defined_fst[of B perm p s a st] by (simp add: prod_eq_iff)

lemma alertStep_alerts:
  "alerts (snd (alertStep B (Defined perm) p s a st)) =
     (if fires s p a then deactivate (alertId a) (alerts st) else alerts st)"
  using alertNotification_Inr[of B s a p] by (auto simp: alertStep_def fires_def)

lemma alertStep_notifications:
  "notifications (snd (alertStep B (Defined perm) p s a st)) =
     notifications st @
       (if fires s p a \<and> perm = Granted then [projr (alertNotification B s a p)] else [])"
  using alertNotification_Inr[of B s a p] by (auto simp: alertStep_def fires_def)

lemma alertStep_rest:
  "tokens (snd (alertStep B env p s a st)) = tokens st"
  "airToken (snd (alertStep B env p s a st)) = airToken st"
  "loading (snd (alertStep B env p s a st)) = loading st"
  "showAlertModal (snd (alertStep B env p s a st)) = showAlertModal st"
  "console (snd (alertStep B env p s a st)) = console st"
  by (simp_all add: alertStep_def split: notification_global.splits sum.splits)

lemma check_Nil: "checkPriceAlerts B [] env p s st = (None, st)"
  by (simp add: checkPriceAlerts_def)

lemma check_Cons:
  "checkPriceAlerts B (a # seen) env p s st =
     (case alertStep B env p s a st of
        (None, st') \<Rightarrow> checkPriceAlerts B seen env p s st'
      | (Some e, st') \<Rightarrow> (Some e, st'))"
  by (simp add: checkPriceAlerts_def split: prod.splits option.splits)

lemma check_Cons_Defined:
  "checkPriceAlerts B (a # seen) (Defined perm) p s st =
     checkPriceAlerts B seen (Defined perm) p s (snd (alertStep B (Defined perm) p s a st))"
  by (subst check_Cons, subst alertStep_Defined) simp

lemma check_NotDefined:
  "checkPriceAlerts B seen NotDefined p s st =
     (if \<exists>a \<in> set seen. fires s p a then Some ReferenceError else None, st)"
  by (induction seen) (simp_all add: check_Nil check_Cons alertStep_NotDefined)

lemma check_Defined_fst: "fst (checkPriceAlerts B seen (Defined perm) p s st) = None"
  by (induction seen arbitrary: st) (simp_all add: check_Nil check_Cons_Defined)

lemma check_fst:
  "fst (checkPriceAlerts B seen env p s st) =
     (if env = NotDefined \<and> (\<exists>a \<in> set seen. fires s p a) then Some ReferenceError else None)"
  by (cases env) (simp_all add: check_NotDefined check_Defined_fst)

lemma check_alerts_Defined:
  "alerts (snd (checkPriceAlerts B seen (Defined perm) p s st)) =
     map (\<lambda>b. if alertId b \<in> alertId ` set (filter (fires s p) seen) then b\<lparr>isActive := False\<rparr> else b)
         (alerts st)"
proof (induction seen arbitrary: st)
  case Nil
  show ?case by (simp add: check_Nil)
next
  case (Cons a seen)
  show ?case
    by (simp add: check_Cons_Defined Cons.IH alertStep_alerts deactivate_def)
qed

lemma check_alerts:
  "alerts (snd (checkPriceAlerts B seen env p s st)) =
     map (\<lambda>b. if alertId b \<in> alertId ` set (reached env s p seen) then b\<lparr>isActive := False\<rparr> else b)
         (alerts st)"
  by (cases env) (simp_all add: check_NotDefined check_alerts_Defined reached_def)

lemma check_notifications_Defined:
  "notifications (snd (checkPriceAlerts B seen (Defined perm) p s st)) =
     notifications st @
       (if perm = Granted
        then map (\<lambda>a. projr (alertNotification B s a p)) (filter (fires s p) seen) else [])"
proof (induction seen arbitrary: st)
  case Nil
  show ?case by (simp add: check_Nil)
next
  case (Cons a seen)
  show ?case
    by (simp add: check_Cons_Defined Cons.IH alertStep_notifications)
qed

lemma check_notifications:
  "notifications (snd (checkPriceAlerts B seen env p s st)) =
     notifications st @
       (if env = Defined Granted
        then map (\<lambda>a. projr (alertNotification B s a p)) (filter (fires s p) seen) else [])"
  by (cases env) (simp_all add: check_NotDefined check_notifications_Defined)

lemma forEach_preserves:
  assumes "\<And>x st. g (snd (f x st)) = g st"
  shows "g (snd (forEach f xs st)) = g st"
proof (induction xs arbitrary: st)
  case Nil
  show ?case by simp
next
  case (Cons x xs)
  obtain e st' where r: "f x st = (e, st')" by (cases "f x st")
  have g: "g st' = g st" using assms[of x st] by (simp add: r)
  show ?case
  proof (cases e)
    case None
    then show ?thesis using Cons.IH[of st'] g by (simp add: r)
  next
    case (Some err)
    then show ?thesis using g by (simp add: r)
  qed
qed

lemma check_rest:
  "tokens (snd (checkPriceAlerts B seen env p s st)) = tokens st"
  "airToken (snd (checkPriceAlerts B seen env p s st)) = airToken st"
  "loading (snd (checkPriceAlerts B seen env p s st)) = loading st"
  "showAlertModal (snd (checkPriceAlerts B seen env p s st)) = showAlertModal st"
  "console (snd (checkPriceAlerts B seen env p s st)) = console st"
  unfolding checkPriceAlerts_def
  by (rule forEach_preserves, rule alertStep_rest)+

subsection \<open>Inactive alerts\<close>

lemma js_ge_Fin: "js_ge (Fin x) (Fin y) = (y \<le> x)"
  by (auto simp: js_ge_def)

lemma js_le_Fin: "js_le (Fin x) (Fin y) = (x \<le> y)"
  by (auto simp: js_le_def)

lemma deactivated_eq: "\<not> isActive b \<Longrightarrow> b\<lparr>isActive := False\<rparr> = b"
  by simp


lemma check_length:
  "length (alerts (snd (checkPriceAlerts B seen env p s st))) = length (alerts st)"
  by (simp add: check_alerts)

lemma check_nth:
  "i < length (alerts st) \<Longrightarrow>
   alerts (snd (checkPriceAlerts B seen env p s st)) ! i =
     (if alertId (alerts st ! i) \<in> alertId ` set (reached env s p seen)
      then (alerts st ! i)\<lparr>isActive := False\<rparr> else alerts st ! i)"
  by (simp add: check_alerts)









subsection \<open>What the evaluator can change\<close>

lemma check_map_fields:
  "map alertId (alerts (snd (checkPriceAlerts B seen env p s st))) = map alertId (alerts st)"
  "map alertSymbol (alerts (snd (checkPriceAlerts B seen env p s st))) = map alertSymbol (alerts st)"
  "map alertType (alerts (snd (checkPriceAlerts B seen env p s st))) = map alertType (alerts st)"
  "map threshold (alerts (snd (checkPriceAlerts B seen env p s st))) = map threshold (alerts st)"
  by (simp_all add: check_alerts comp_def if_distrib cong: if_cong)

lemma reached_fires: "a \<in> set (reached env s p seen) \<Longrightarrow> a \<in> set seen \<and> fires s p a"
  by (cases env) (simp_all add: reached_def)

lemma check_changed:
  assumes "k < length (alerts st)"
    and "alerts (snd (checkPriceAlerts B seen env p s st)) ! k \<noteq> alerts st ! k"
  shows "isActive (alerts st ! k)"
    and "alerts (snd (checkPriceAlerts B seen env p s st)) ! k = (alerts st ! k)\<lparr>isActive := False\<rparr>"
    and "\<exists>a \<in> set seen. alertId a = alertId (alerts st ! k) \<and> alertSymbol a = s \<and> isActive a \<and>
           shouldTrigger a p"
proof -
  let ?b = "alerts st ! k"
  have n: "alerts (snd (checkPriceAlerts B seen env p s st)) ! k =
     (if alertId ?b \<in> alertId ` set (reached env s p seen)
      then ?b\<lparr>isActive := False\<rparr> else ?b)"
    using assms(1) by (rule check_nth)
  from n assms(2) have inI: "alertId ?b \<in> alertId ` set (reached env s p seen)"
    by (auto split: if_splits)
  with n show 2: "alerts (snd (checkPriceAlerts B seen env p s st)) ! k = ?b\<lparr>isActive := False\<rparr>"
    by simp
  show "isActive ?b"
  proof (rule ccontr)
    assume "\<not> isActive ?b"
    then have "?b\<lparr>isActive := False\<rparr> = ?b" by simp
    with 2 assms(2) show False by simp
  qed
  from inI obtain a where a: "a \<in> set (reached env s p seen)" "alertId a = alertId ?b" by auto
  from reached_fires[OF a(1)] a(2)
  show "\<exists>a \<in> set seen. alertId a = alertId ?b \<and> alertSymbol a = s \<and> isActive a \<and>
           shouldTrigger a p"
    by (auto simp: fires_def)
qed

lemma check_changed_distinct:
  assumes "k < length (alerts st)" and "distinct (map alertId (alerts st))"
    and "alerts (snd (checkPriceAlerts B (alerts st) env p s st)) ! k \<noteq> alerts st ! k"
  shows "alertSymbol (alerts st ! k) = s \<and> shouldTrigger (alerts st ! k) p"
proof -
  from check_changed(3)[OF assms(1,3)]
  obtain a where a: "a \<in> set (alerts st)" "alertId a = alertId (alerts st ! k)"
    "alertSymbol a = s" "shouldTrigger a p" by blast
  have "alerts st ! k \<in> set (alerts st)" using assms(1) by simp
  moreover from assms(2) have "inj_on alertId (set (alerts st))" by (simp add: distinct_map)
  ultimately have "a = alerts st ! k" using a(1,2) by (auto dest: inj_onD)
  with a(3,4) show ?thesis by simp
qed

lemma check_never_activates:
  assumes "k < length (alerts st)"
    and "isActive (alerts (snd (checkPriceAlerts B seen env p s st)) ! k)"
  shows "isActive (alerts st ! k)"
  using assms by (simp add: check_nth split: if_splits)

subsection \<open>Digits, toFixed and the numeric coercion\<close>

lemma replicate_numeral: "replicate (numeral v) x = x # replicate (pred_numeral v) x"
  by (simp add: numeral_eq_Suc)

lemma digitsOf_lt10: "n < 10 \<Longrightarrow> digitsOf n = [''0123456789'' ! n]"
  by (subst digitsOf.simps) simp

lemma digitsOf_ge10: "10 \<le> n \<Longrightarrow> digitsOf n = digitsOf (n div 10) @ [''0123456789'' ! (n mod 10)]"
  by (subst digitsOf.simps) simp

lemma digitsOf_0: "digitsOf 0 = ''0''"
  by (simp add: digitsOf_lt10)

lemma length_digitsOf_pos: "0 < length (digitsOf n)"
  by (subst digitsOf.simps) simp

lemma fixedDigits_2:
  fixes x :: real
  defines "n \<equiv> nat \<lfloor>x * 10 ^ 2 + 1 / 2\<rfloor>"
  shows "fixedDigits x 2 = digitsOf (n div 100) @ ''.'' @ [''0123456789'' ! (n div 10 mod 10), ''0123456789'' ! (n mod 10)]"
proof -
  consider "n < 10" | "10 \<le> n" "n < 100" | "100 \<le> n" by linarith
  then show ?thesis
  proof cases
    case 1
    then have d: "digitsOf n = [''0123456789'' ! n]" by (rule digitsOf_lt10)
    from 1 show ?thesis unfolding fixedDigits_def n_def[symmetric] Let_def
      by (simp add: replicate_numeral d digitsOf_0)
  next
    case 2
    then have d: "digitsOf n = [''0123456789'' ! (n div 10), ''0123456789'' ! (n mod 10)]"
      by (simp add: digitsOf_ge10 digitsOf_lt10)
    from 2 have z: "n div 100 = 0" "n div 10 mod 10 = n div 10" "n \<noteq> 0" by auto
    show ?thesis unfolding fixedDigits_def n_def[symmetric] Let_def d
      by (simp add: z digitsOf_0)
  next
    case 3
    then have a: "10 \<le> n div 10" by simp
    have d: "digitsOf n = digitsOf (n div 100) @ [''0123456789'' ! (n div 10 mod 10), ''0123456789'' ! (n mod 10)]"
    proof -
      have e: "n div 10 div 10 = n div 100" by (simp add: div_mult2_eq[symmetric])
      from 3 a show ?thesis
        using digitsOf_ge10[of n] digitsOf_ge10[of "n div 10"] by (simp add: e)
    qed
    have l: "0 < length (digitsOf (n div 100))" by (rule length_digitsOf_pos)
    from 3 have nz: "n \<noteq> 0" by simp
    show ?thesis unfolding fixedDigits_def n_def[symmetric] Let_def
      using l nz by (simp add: d)
  qed
qed

lemma nearest_hundredth:
  fixes a :: real
  assumes "0 \<le> a"
  shows "\<bar>real (nat \<lfloor>a * 10 ^ 2 + 1 / 2\<rfloor>) / 100 - a\<bar> \<le> 1 / 200"
proof -
  define k where "k = \<lfloor>a * 10 ^ 2 + 1 / 2\<rfloor>"
  have nn: "0 \<le> k" using assms by (simp add: k_def)
  have lo: "real_of_int k \<le> a * 100 + 1 / 2" unfolding k_def using of_int_floor_le[of "a * 10 ^ 2 + 1 / 2"] by simp
  have hi: "a * 100 + 1 / 2 < real_of_int k + 1" unfolding k_def using floor_correct[of "a * 10 ^ 2 + 1 / 2"] by simp
  have r: "real (nat k) = real_of_int k" using nn by simp
  have "\<bar>real_of_int k / 100 - a\<bar> \<le> 1 / 200" using lo hi by linarith
  then show ?thesis unfolding k_def[symmetric] r .
qed

lemma safeNumber_char:
  "safeNumber B v fb =
     (case Number B v of Inl e \<Rightarrow> Inl e | Inr n \<Rightarrow> Inr (if isFinite n then n else fb))"
  by (simp add: safeNumber_def isNaN_or_not_finite split: sum.splits)

lemma safeNumber_Fin: "safeNumber B (JNum (Fin x)) fb = Inr (Fin x)"
  by (simp add: safeNumber_char isFinite_def)

lemma allOrThrow_Inl: "allOrThrow xs = Inl e \<Longrightarrow> Inl e \<in> set xs"
  by (induction xs) (auto split: sum.splits)

lemma ToString_throws: "ToString B v = Inl e \<Longrightarrow> e = TypeError"
proof (induction B v rule: ToString.induct)
  case (6 B xs)
  from "6.prems" have
    "allOrThrow (map (\<lambda>x. if x = JUndefined \<or> x = JNull then Inr [] else ToString B x) xs) = Inl e"
    by (simp split: sum.splits)
  then have "Inl e \<in> set (map (\<lambda>x. if x = JUndefined \<or> x = JNull then Inr [] else ToString B x) xs)"
    by (rule allOrThrow_Inl)
  then obtain x where x: "x \<in> set xs" "x \<noteq> JUndefined" "x \<noteq> JNull" "ToString B x = Inl e"
    by (auto split: if_splits)
  then show ?case using "6.IH"[of x] by simp
qed (simp_all split: if_splits)

lemma Number_throws: "Number B v = Inl e \<Longrightarrow> e = TypeError"
proof (cases v)
  case (JArray xs)
  assume "Number B v = Inl e"
  with JArray have "ToString B (JArray xs) = Inl e" by (simp split: sum.splits)
  then show ?thesis by (rule ToString_throws)
qed (auto split: if_splits)

lemma toFixed_2:
  assumes "\<bar>c\<bar> < 10 ^ 21"
  shows "toFixed B (Fin c) 2 =
     (if c < 0 then ''-'' else '''') @
     digitsOf (nat \<lfloor>\<bar>c\<bar> * 10 ^ 2 + 1 / 2\<rfloor> div 100) @ ''.'' @
     [''0123456789'' ! (nat \<lfloor>\<bar>c\<bar> * 10 ^ 2 + 1 / 2\<rfloor> div 10 mod 10),
      ''0123456789'' ! (nat \<lfloor>\<bar>c\<bar> * 10 ^ 2 + 1 / 2\<rfloor> mod 10)]"
proof (cases "c < 0")
  case True
  then have a: "\<bar>c\<bar> = - c" by simp
  from assms True have "\<not> 10 ^ 21 \<le> - c" by simp
  with True show ?thesis unfolding a by (simp add: toFixed_def Let_def fixedDigits_2)
next
  case False
  then have a: "\<bar>c\<bar> = c" by simp
  from assms False have "\<not> 10 ^ 21 \<le> c" by simp
  with False show ?thesis unfolding a by (simp add: toFixed_def Let_def fixedDigits_2)
qed

subsection \<open>Identifier strings\<close>

lemma digit_char_inj:
  assumes "d < 10" and "e < 10" and "''0123456789'' ! d = ''0123456789'' ! e"
  shows "d = (e::nat)"
proof -
  have D: "d \<in> {0, 1, 2, 3, 4, 5, 6, 7, 8, 9}" using assms(1) by auto
  have E: "e \<in> {0, 1, 2, 3, 4, 5, 6, 7, 8, 9}" using assms(2) by auto
  from D E assms(3) show ?thesis by auto
qed

lemma digit_char_not_minus:
  assumes "d < 10"
  shows "''0123456789'' ! d \<noteq> CHR ''-''"
proof -
  have D: "d \<in> {0, 1, 2, 3, 4, 5, 6, 7, 8, 9}" using assms by auto
  then show ?thesis by auto
qed

lemma digitsOf_snoc:
  "\<exists>ds. digitsOf n = ds @ [''0123456789'' ! (n mod 10)]"
proof (cases "n < 10")
  case True
  then show ?thesis by (simp add: digitsOf_lt10)
next
  case False
  then show ?thesis by (simp add: digitsOf_ge10)
qed

lemma digitsOf_inj: "digitsOf m = digitsOf n \<Longrightarrow> m = n"
proof (induction m arbitrary: n rule: digitsOf.induct)
  case (1 m)
  show ?case
  proof (cases "m < 10")
    case True
    then have dm: "digitsOf m = [''0123456789'' ! m]" by (rule digitsOf_lt10)
    show ?thesis
    proof (cases "n < 10")
      case True
      then have "digitsOf n = [''0123456789'' ! n]" by (rule digitsOf_lt10)
      with dm "1.prems" have "''0123456789'' ! m = ''0123456789'' ! n" by simp
      with \<open>m < 10\<close> True show ?thesis by (rule digit_char_inj)
    next
      case False
      then have "digitsOf n = digitsOf (n div 10) @ [''0123456789'' ! (n mod 10)]"
        by (simp add: digitsOf_ge10)
      with dm "1.prems" have "digitsOf (n div 10) = []" by (simp add: Cons_eq_append_conv)
      with length_digitsOf_pos[of "n div 10"] show ?thesis by simp
    qed
  next
    case False
    then have dm: "digitsOf m = digitsOf (m div 10) @ [''0123456789'' ! (m mod 10)]"
      by (simp add: digitsOf_ge10)
    show ?thesis
    proof (cases "n < 10")
      case True
      then have "digitsOf n = [''0123456789'' ! n]" by (rule digitsOf_lt10)
      with dm "1.prems" have "digitsOf (m div 10) = []" by (simp add: append_eq_Cons_conv)
      with length_digitsOf_pos[of "m div 10"] show ?thesis by simp
    next
      case nge: False
      then have dn: "digitsOf n = digitsOf (n div 10) @ [''0123456789'' ! (n mod 10)]"
        by (simp add: digitsOf_ge10)
      from dm dn "1.prems" have a: "digitsOf (m div 10) = digitsOf (n div 10)"
        and b: "''0123456789'' ! (m mod 10) = ''0123456789'' ! (n mod 10)" by simp_all
      from "1.IH"[OF False a] have q: "m div 10 = n div 10" .
      have r: "m mod 10 = n mod 10" by (rule digit_char_inj[OF _ _ b]) simp_all
      have "m = 10 * (m div 10) + m mod 10" by simp
      also have "\<dots> = 10 * (n div 10) + n mod 10" by (simp only: q r)
      also have "\<dots> = n" by simp
      finally show ?thesis .
    qed
  qed
qed

lemma digitsOf_hd_not_minus: "hd (digitsOf n) \<noteq> CHR ''-''"
proof (induction n rule: digitsOf.induct)
  case (1 n)
  show ?case
  proof (cases "n < 10")
    case True
    then show ?thesis by (simp add: digitsOf_lt10 digit_char_not_minus)
  next
    case False
    have "digitsOf (n div 10) \<noteq> []" using length_digitsOf_pos[of "n div 10"] by simp
    then have "hd (digitsOf n) = hd (digitsOf (n div 10))" using False by (simp add: digitsOf_ge10)
    with "1.IH"[OF False] show ?thesis by simp
  qed
qed

lemma intToString_inj: "intToString i = intToString j \<Longrightarrow> i = j"
proof -
  assume e: "intToString i = intToString j"
  consider "i < 0" "j < 0" | "i < 0" "\<not> j < 0" | "\<not> i < 0" "j < 0" | "\<not> i < 0" "\<not> j < 0" by blast
  then show ?thesis
  proof cases
    case 1
    with e have "digitsOf (nat (- i)) = digitsOf (nat (- j))" by (simp add: intToString_def)
    then have "nat (- i) = nat (- j)" by (rule digitsOf_inj)
    with 1 show ?thesis by simp
  next
    case 2
    with e have "CHR ''-'' # digitsOf (nat (- i)) = digitsOf (nat j)" by (simp add: intToString_def)
    then have "hd (digitsOf (nat j)) = CHR ''-''" by (metis list.sel(1))
    with digitsOf_hd_not_minus show ?thesis by blast
  next
    case 3
    with e have "digitsOf (nat i) = CHR ''-'' # digitsOf (nat (- j))" by (simp add: intToString_def)
    then have "hd (digitsOf (nat i)) = CHR ''-''" by (metis list.sel(1))
    with digitsOf_hd_not_minus show ?thesis by blast
  next
    case 4
    with e have "digitsOf (nat i) = digitsOf (nat j)" by (simp add: intToString_def)
    then have "nat i = nat j" by (rule digitsOf_inj)
    with 4 show ?thesis by simp
  qed
qed

subsection \<open>Creation\<close>

lemma createAlert_alerts:
  "alerts (createAlert now symb t thr st) =
     alerts st @ [\<lparr>alertId = intToString now, alertSymbol = symb, alertType = t,
                   threshold = thr, isActive = True\<rparr>]"
  by (simp add: createAlert_def Let_def)

lemma js_gt_zero_cases:
  "js_gt n (Fin 0) \<longleftrightarrow> (n = PosInf \<or> (\<exists>x. n = Fin x \<and> 0 < x))"
  by (cases n) (simp_all add: js_gt_def)

subsection \<open>The fetch cycle\<close>

lemma forEach_never_throws:
  assumes "\<And>x st. fst (f x st) = None"
  shows "fst (forEach f xs st) = None"
proof (induction xs arbitrary: st)
  case Nil
  show ?case by simp
next
  case (Cons x xs)
  obtain e st' where r: "f x st = (e, st')" by (cases "f x st")
  have "e = None" using assms[of x st] by (simp add: r)
  then show ?case using Cons.IH[of st'] by (simp add: r)
qed

lemma forEach_tokens_ids:
  "map alertId
     (alerts (snd (forEach (\<lambda>token. checkPriceAlerts B seen env (price token) (symbol token))
                           toks st))) = map alertId (alerts st)"
  by (rule forEach_preserves[where g = "\<lambda>st. map alertId (alerts st)"])
     (rule check_map_fields(1))

lemma airTokenDataOf_Inr: "\<exists>tok. airTokenDataOf B r1 r2 = Inr tok"
  by (simp add: airTokenDataOf_def Let_def safeNumber_JNum)

lemma fetchTry_failed:
  "fetchTry B seen env FetchRejected r1 r2 st = (Some NetworkError, st)"
  "fetchTry B seen env (FetchResponse False parsed) r1 r2 st = (Some FailedToFetch, st)"
  "fetchTry B seen env (FetchResponse True None) r1 r2 st = (Some JsonSyntaxError, st)"
  "fetchTry B seen env (FetchResponse True (Some JNull)) r1 r2 st = (Some TypeError, st)"
  by (simp_all add: fetchTry_def)

lemma fetchTry_run:
  assumes "data \<noteq> JNull" and "data \<noteq> JUndefined"
    and "cryptoTokensOf B data = Inr toks" and "airTokenDataOf B r1 r2 = Inr tok"
  shows "fetchTry B seen env (FetchResponse True (Some data)) r1 r2 st =
     (if fst (checkPriceAlerts B seen env (price tok) ''AIR'' st) \<noteq> None
      then checkPriceAlerts B seen env (price tok) ''AIR'' st
      else if fst (forEach (\<lambda>token. checkPriceAlerts B seen env (price token) (symbol token))
                     toks (snd (checkPriceAlerts B seen env (price tok) ''AIR'' st))) \<noteq> None
      then forEach (\<lambda>token. checkPriceAlerts B seen env (price token) (symbol token))
                     toks (snd (checkPriceAlerts B seen env (price tok) ''AIR'' st))
      else (None,
            (snd (forEach (\<lambda>token. checkPriceAlerts B seen env (price token) (symbol token))
                     toks (snd (checkPriceAlerts B seen env (price tok) ''AIR'' st))))
              \<lparr>tokens := toks, airToken := Some tok, loading := False\<rparr>))"
  using assms by (auto simp: fetchTry_def split: prod.splits option.splits)

lemma fetchTry_cases:
  obtains (failed) e where "fetchTry B seen env outcome r1 r2 st = (Some e, st)"
  | (run) data toks tok where "outcome = FetchResponse True (Some data)"
      "data \<noteq> JNull" "data \<noteq> JUndefined" "cryptoTokensOf B data = Inr toks"
      "airTokenDataOf B r1 r2 = Inr tok"
proof -
  obtain tok where tok: "airTokenDataOf B r1 r2 = Inr tok" using airTokenDataOf_Inr by blast
  show thesis
  proof (cases outcome)
    case FetchRejected
    then show ?thesis using failed by (simp add: fetchTry_failed)
  next
    case (FetchResponse ok parsed)
    show ?thesis
    proof (cases ok)
      case False
      with FetchResponse show ?thesis using failed by (simp add: fetchTry_failed)
    next
      case True
      show ?thesis
      proof (cases parsed)
        case None
        with FetchResponse True show ?thesis using failed by (simp add: fetchTry_failed)
      next
        case (Some data)
        show ?thesis
        proof (cases "data = JNull \<or> data = JUndefined")
          case True
          with FetchResponse \<open>ok\<close> Some show ?thesis using failed[of TypeError]
            by (simp add: fetchTry_def)
        next
          case False
          show ?thesis
          proof (cases "cryptoTokensOf B data")
            case (Inl e)
            with FetchResponse \<open>ok\<close> Some False show ?thesis using failed[of e]
              by (simp add: fetchTry_def)
          next
            case (Inr toks)
            with FetchResponse \<open>ok\<close> Some False tok show ?thesis using run by simp
          qed
        qed
      qed
    qed
  qed
qed

lemma fetchTry_ids:
  "map alertId (alerts (snd (fetchTry B seen env outcome r1 r2 st))) = map alertId (alerts st)"
proof (cases rule: fetchTry_cases[of B seen env outcome r1 r2 st])
  case (failed e)
  then show ?thesis by simp
next
  case (run data toks tok)
  show ?thesis unfolding run(1) fetchTry_run[OF run(2-5)]
    by (simp add: forEach_tokens_ids check_map_fields(1))
qed

lemma fetch_alerts:
  "alerts (fetchCryptoData B seen env outcome r1 r2 st) =
     alerts (snd (fetchTry B seen env outcome r1 r2 st))"
  by (simp add: fetchCryptoData_def split: prod.splits option.splits)

lemma fetch_notifications:
  "notifications (fetchCryptoData B seen env outcome r1 r2 st) =
     notifications (snd (fetchTry B seen env outcome r1 r2 st))"
  by (simp add: fetchCryptoData_def split: prod.splits option.splits)

lemma fetch_caught:
  "fetchTry B seen env outcome r1 r2 st = (Some e, st') \<Longrightarrow>
   fetchCryptoData B seen env outcome r1 r2 st =
     st'\<lparr>console := console st' @ [e], loading := False\<rparr>"
  by (simp add: fetchCryptoData_def)

lemma fetch_done:
  "fst (fetchTry B seen env outcome r1 r2 st) = None \<Longrightarrow>
   fetchCryptoData B seen env outcome r1 r2 st = snd (fetchTry B seen env outcome r1 r2 st)"
  by (cases "fetchTry B seen env outcome r1 r2 st") (simp add: fetchCryptoData_def)

lemma fetch_ids:
  "map alertId (alerts (fetchCryptoData B seen env outcome r1 r2 st)) = map alertId (alerts st)"
  by (simp only: fetch_alerts fetchTry_ids)

lemma fold_fetch_ids:
  "map alertId (alerts (fold (\<lambda>(seen, env, outcome, r1, r2). fetchCryptoData B seen env outcome r1 r2)
                              cycles st)) = map alertId (alerts st)"
  by (induction cycles arbitrary: st) (auto simp: fetch_ids)

lemma forEach_check_Nil:
  "forEach (\<lambda>token. checkPriceAlerts B [] env (price token) (symbol token)) toks st = (None, st)"
  by (induction toks) (simp_all add: check_Nil)

lemma fetchTry_run_Nil:
  assumes "data \<noteq> JNull" and "data \<noteq> JUndefined"
    and "cryptoTokensOf B data = Inr toks" and "airTokenDataOf B r1 r2 = Inr tok"
  shows "fetchTry B [] env (FetchResponse True (Some data)) r1 r2 st =
           (None, st\<lparr>tokens := toks, airToken := Some tok, loading := False\<rparr>)"
  unfolding fetchTry_run[OF assms] by (simp add: check_Nil forEach_check_Nil)

lemma fetchTry_Defined:
  assumes "data \<noteq> JNull" and "data \<noteq> JUndefined"
    and "cryptoTokensOf B data = Inr toks"
  shows "fst (fetchTry B seen (Defined perm) (FetchResponse True (Some data)) r1 r2 st) = None"
proof -
  obtain tok where tok: "airTokenDataOf B r1 r2 = Inr tok" using airTokenDataOf_Inr by blast
  have f: "fst (forEach (\<lambda>token. checkPriceAlerts B seen (Defined perm) (price token) (symbol token))
                 toks (snd (checkPriceAlerts B seen (Defined perm) (price tok) ''AIR'' st))) = None"
    by (rule forEach_never_throws) (rule check_Defined_fst)
  show ?thesis unfolding fetchTry_run[OF assms tok] by (simp add: check_Defined_fst f)
qed

lemma fetchTry_done:
  assumes "fst (fetchTry B seen env outcome r1 r2 st) = None"
  obtains data toks tok where "outcome = FetchResponse True (Some data)"
      "data \<noteq> JNull" "data \<noteq> JUndefined" "cryptoTokensOf B data = Inr toks"
      "airTokenDataOf B r1 r2 = Inr tok"
      "tokens (fetchCryptoData B seen env outcome r1 r2 st) = toks"
      "airToken (fetchCryptoData B seen env outcome r1 r2 st) = Some tok"
      "loading (fetchCryptoData B seen env outcome r1 r2 st) = False"
proof (cases rule: fetchTry_cases[of B seen env outcome r1 r2 st])
  case (failed e)
  with assms show ?thesis by simp
next
  case (run data toks tok)
  note r = fetchTry_run[OF run(2-5), of seen env st]
  from assms have n1: "fst (checkPriceAlerts B seen env (price tok) ''AIR'' st) = None"
    unfolding run(1) r by (simp split: if_splits)
  from assms n1 have n2:
    "fst (forEach (\<lambda>token. checkPriceAlerts B seen env (price token) (symbol token))
                     toks (snd (checkPriceAlerts B seen env (price tok) ''AIR'' st))) = None"
    unfolding run(1) r by (simp split: if_splits)
  have d: "fetchCryptoData B seen env outcome r1 r2 st = snd (fetchTry B seen env outcome r1 r2 st)"
    using assms by (rule fetch_done)
  have "tokens (fetchCryptoData B seen env outcome r1 r2 st) = toks"
      "airToken (fetchCryptoData B seen env outcome r1 r2 st) = Some tok"
      "loading (fetchCryptoData B seen env outcome r1 r2 st) = False"
    unfolding d unfolding run(1) r using n1 n2 by simp_all
  with run show ?thesis using that by blast
qed

lemma interval_cycle_sees_no_alerts:
  "alerts (intervalCycle B env outcome r1 r2 st) = alerts st \<and>
   notifications (intervalCycle B env outcome r1 r2 st) = notifications st"
proof (cases rule: fetchTry_cases[of B "[]" env outcome r1 r2 st])
  case (failed e)
  then show ?thesis by (simp add: intervalCycle_def fetch_caught)
next
  case (run data toks tok)
  show ?thesis unfolding intervalCycle_def run(1)
    by (simp add: fetchCryptoData_def fetchTry_run_Nil[OF run(2-5)])
qed

subsection \<open>Fetched tokens\<close>

lemma fetch_Nil:
  assumes "data \<noteq> JNull" and "data \<noteq> JUndefined"
    and "cryptoTokensOf B data = Inr toks" and "airTokenDataOf B r1 r2 = Inr tok"
  shows "fetchCryptoData B [] env (FetchResponse True (Some data)) r1 r2 st =
           st\<lparr>tokens := toks, airToken := Some tok, loading := False\<rparr>"
  by (simp add: fetchCryptoData_def fetchTry_run_Nil[OF assms])

lemma fetch_Nil_tokens:
  assumes "data \<noteq> JNull" and "data \<noteq> JUndefined" and "cryptoTokensOf B data = Inr toks"
  shows "tokens (fetchCryptoData B [] env (FetchResponse True (Some data)) r1 r2 st) = toks"
proof -
  obtain tok where tok: "airTokenDataOf B r1 r2 = Inr tok" using airTokenDataOf_Inr by blast
  show ?thesis by (simp add: fetch_Nil[OF assms tok])
qed

lemma fetch_throwing_field:
  assumes "data \<noteq> JNull" and "data \<noteq> JUndefined" and "cryptoTokensOf B data = Inl e"
  shows "fetchCryptoData B seen env (FetchResponse True (Some data)) r1 r2 st =
           st\<lparr>console := console st @ [e], loading := False\<rparr>"
  using assms by (simp add: fetchCryptoData_def fetchTry_def)

lemma safeNumber_Inr:
  "safeNumber B v fb = Inr p \<Longrightarrow>
   \<exists>n. Number B v = Inr n \<and> p = (if isFinite n then n else fb)"
  by (auto simp: safeNumber_char split: sum.splits)

lemma tokenOf_Inr:
  assumes "tokenOf B data key sy nm fb = Inr t"
  shows "\<exists>n c. Number B (optMember (member data key) ''usd'') = Inr n \<and>
               Number B (optMember (member data key) ''usd_24h_change'') = Inr c \<and>
               symbol t = sy \<and> name t = nm \<and> contract t = None \<and>
               price t = (if isFinite n then n else fb) \<and>
               change24h t = (if isFinite c then c else Fin 0)"
proof -
  from assms obtain p c where
    p: "safeNumber B (optMember (member data key) ''usd'') fb = Inr p" and
    c: "safeNumber B (optMember (member data key) ''usd_24h_change'') (Fin 0) = Inr c" and
    t: "t = \<lparr>symbol = sy, name = nm, price = p, change24h = c, contract = None\<rparr>"
    by (auto simp: tokenOf_def split: sum.splits)
  from safeNumber_Inr[OF p] obtain n where
    n: "Number B (optMember (member data key) ''usd'') = Inr n" "p = (if isFinite n then n else fb)"
    by blast
  from safeNumber_Inr[OF c] obtain c' where
    c': "Number B (optMember (member data key) ''usd_24h_change'') = Inr c'"
      "c = (if isFinite c' then c' else Fin 0)"
    by blast
  show ?thesis
    apply (rule exI[of _ n])
    apply (rule exI[of _ c'])
    apply (simp only: n(1) c'(1) t TokenData.simps n(2) c'(2) simp_thms)
    done
qed

lemma allOrThrow_5:
  "allOrThrow [a, b, c, d, e] = Inr xs \<Longrightarrow>
   \<exists>t1 t2 t3 t4 t5. xs = [t1, t2, t3, t4, t5] \<and> a = Inr t1 \<and> b = Inr t2 \<and> c = Inr t3 \<and>
      d = Inr t4 \<and> e = Inr t5"
  by (auto split: sum.splits)

lemma round64_14_85: "round64 14.85 = 8359806808306483 / 2 ^ 49"
  using round64_nearest[where x = "14.85" and k = 3 and n = 8359806808306483]
  by (simp add: powi_neg_numeral powi_numeral)

lemma round64_6_42: "round64 6.42 = 3614138700964823 / 2 ^ 49"
  using round64_nearest[where x = "6.42" and k = 2 and n = 7228277401929646]
  by (simp add: powi_neg_numeral powi_numeral)

lemma lit_fallbacks:
  "lit 14.85 = Fin (8359806808306483 / 2 ^ 49)" "lit 6.42 = Fin (3614138700964823 / 2 ^ 49)"
proof -
  have "lit 14.85 = Fin (round64 14.85)" by (rule lit_small) simp
  then show "lit 14.85 = Fin (8359806808306483 / 2 ^ 49)" by (simp only: round64_14_85)
  have "lit 6.42 = Fin (round64 6.42)" by (rule lit_small) simp
  then show "lit 6.42 = Fin (3614138700964823 / 2 ^ 49)" by (simp only: round64_6_42)
qed

lemma missing_NaN:
  "member data key = JUndefined \<Longrightarrow> Number B (optMember (member data key) k) = Inr NaN"
  "member (member data key) k = JUndefined \<Longrightarrow> Number B (optMember (member data key) k) = Inr NaN"
  by (simp_all add: optMember_def)

lemma fetched_tokens:
  assumes "fst (fetchTry B seen env (FetchResponse True (Some data)) r1 r2 st) = None"
  shows "\<exists>ns cs.
           map (\<lambda>key. Number B (optMember (member data key) ''usd''))
               [''ethereum'', ''bitcoin'', ''usd-coin'', ''chainlink'', ''uniswap''] = map Inr ns \<and>
           map (\<lambda>key. Number B (optMember (member data key) ''usd_24h_change''))
               [''ethereum'', ''bitcoin'', ''usd-coin'', ''chainlink'', ''uniswap''] = map Inr cs \<and>
           map symbol (tokens (fetchCryptoData B seen env (FetchResponse True (Some data)) r1 r2 st)) =
             [''ETH'', ''BTC'', ''USDC'', ''LINK'', ''UNI''] \<and>
           map price (tokens (fetchCryptoData B seen env (FetchResponse True (Some data)) r1 r2 st)) =
             map2 (\<lambda>n fb. if isFinite n then n else fb) ns
               [lit 2340, lit 43250, lit 1.0, lit 14.85, lit 6.42] \<and>
           map change24h
               (tokens (fetchCryptoData B seen env (FetchResponse True (Some data)) r1 r2 st)) =
             map (\<lambda>c. if isFinite c then c else Fin 0) cs"
proof -
  from assms obtain toks where
    c: "cryptoTokensOf B data = Inr toks" and
    t: "tokens (fetchCryptoData B seen env (FetchResponse True (Some data)) r1 r2 st) = toks"
    by (rule fetchTry_done) auto
  from allOrThrow_5[OF c[unfolded cryptoTokensOf_def]]
  obtain t1 t2 t3 t4 t5 where toks: "toks = [t1, t2, t3, t4, t5]"
    and e: "tokenOf B data ''ethereum'' ''ETH'' ''Ethereum'' (lit 2340) = Inr t1"
           "tokenOf B data ''bitcoin'' ''BTC'' ''Bitcoin'' (lit 43250) = Inr t2"
           "tokenOf B data ''usd-coin'' ''USDC'' ''USD Coin'' (lit 1.0) = Inr t3"
           "tokenOf B data ''chainlink'' ''LINK'' ''Chainlink'' (lit 14.85) = Inr t4"
           "tokenOf B data ''uniswap'' ''UNI'' ''Uniswap'' (lit 6.42) = Inr t5"
    by blast
  from tokenOf_Inr[OF e(1)] obtain n1 c1 where
    1: "Number B (optMember (member data ''ethereum'') ''usd'') = Inr n1"
       "Number B (optMember (member data ''ethereum'') ''usd_24h_change'') = Inr c1"
       "symbol t1 = ''ETH''" "price t1 = (if isFinite n1 then n1 else lit 2340)"
       "change24h t1 = (if isFinite c1 then c1 else Fin 0)" by blast
  from tokenOf_Inr[OF e(2)] obtain n2 c2 where
    2: "Number B (optMember (member data ''bitcoin'') ''usd'') = Inr n2"
       "Number B (optMember (member data ''bitcoin'') ''usd_24h_change'') = Inr c2"
       "symbol t2 = ''BTC''" "price t2 = (if isFinite n2 then n2 else lit 43250)"
       "change24h t2 = (if isFinite c2 then c2 else Fin 0)" by blast
  from tokenOf_Inr[OF e(3)] obtain n3 c3 where
    3: "Number B (optMember (member data ''usd-coin'') ''usd'') = Inr n3"
       "Number B (optMember (member data ''usd-coin'') ''usd_24h_change'') = Inr c3"
       "symbol t3 = ''USDC''" "price t3 = (if isFinite n3 then n3 else lit 1.0)"
       "change24h t3 = (if isFinite c3 then c3 else Fin 0)" by blast
  from tokenOf_Inr[OF e(4)] obtain n4 c4 where
    4: "Number B (optMember (member data ''chainlink'') ''usd'') = Inr n4"
       "Number B (optMember (member data ''chainlink'') ''usd_24h_change'') = Inr c4"
       "symbol t4 = ''LINK''" "price t4 = (if isFinite n4 then n4 else lit 14.85)"
       "change24h t4 = (if isFinite c4 then c4 else Fin 0)" by blast
  from tokenOf_Inr[OF e(5)] obtain n5 c5 where
    5: "Number B (optMember (member data ''uniswap'') ''usd'') = Inr n5"
       "Number B (optMember (member data ''uniswap'') ''usd_24h_change'') = Inr c5"
       "symbol t5 = ''UNI''" "price t5 = (if isFinite n5 then n5 else lit 6.42)"
       "change24h t5 = (if isFinite c5 then c5 else Fin 0)" by blast
  show ?thesis
    apply (rule exI[of _ "[n1, n2, n3, n4, n5]"])
    apply (rule exI[of _ "[c1, c2, c3, c4, c5]"])
    unfolding t toks
    apply (simp only: list.map 1 2 3 4 5 zip.simps list.case prod.case)
    done
qed

lemma tokenOf_Inr_iff:
  "(\<exists>t. tokenOf B data key sy nm fb = Inr t) \<longleftrightarrow>
     (\<exists>n. Number B (optMember (member data key) ''usd'') = Inr n) \<and>
     (\<exists>c. Number B (optMember (member data key) ''usd_24h_change'') = Inr c)"
  by (auto simp: tokenOf_def safeNumber_char split: sum.splits)

lemma allOrThrow_5_iff:
  "(\<exists>xs. allOrThrow [a, b, c, d, e] = Inr xs) \<longleftrightarrow>
     (\<exists>t. a = Inr t) \<and> (\<exists>t. b = Inr t) \<and> (\<exists>t. c = Inr t) \<and> (\<exists>t. d = Inr t) \<and> (\<exists>t. e = Inr t)"
  by (auto split: sum.splits)

lemma cryptoTokensOf_Inr_iff:
  "(\<exists>toks. cryptoTokensOf B data = Inr toks) \<longleftrightarrow>
     (\<forall>key \<in> set [''ethereum'', ''bitcoin'', ''usd-coin'', ''chainlink'', ''uniswap''].
        \<forall>k \<in> set [''usd'', ''usd_24h_change''].
          \<exists>n. Number B (optMember (member data key) k) = Inr n)"
  unfolding cryptoTokensOf_def allOrThrow_5_iff tokenOf_Inr_iff by simp

lemma cryptoTokensOf_throws: "cryptoTokensOf B data = Inl e \<Longrightarrow> e = TypeError"
proof -
  assume a: "cryptoTokensOf B data = Inl e"
  have t: "\<And>key sy nm fb. tokenOf B data key sy nm fb = Inl e \<Longrightarrow> e = TypeError"
    by (auto simp: tokenOf_def safeNumber_char split: sum.splits dest: Number_throws)
  from allOrThrow_Inl[OF a[unfolded cryptoTokensOf_def]] show ?thesis
    by (auto dest: t[OF sym])
qed

lemma fetch_succeeds_iff:
  assumes "data \<noteq> JNull" and "data \<noteq> JUndefined"
  shows "fst (fetchTry B seen (Defined perm) (FetchResponse True (Some data)) r1 r2 st) = None \<longleftrightarrow>
     (\<forall>key \<in> set [''ethereum'', ''bitcoin'', ''usd-coin'', ''chainlink'', ''uniswap''].
        \<forall>k \<in> set [''usd'', ''usd_24h_change''].
          \<exists>n. Number B (optMember (member data key) k) = Inr n)"
proof -
  have "fst (fetchTry B seen (Defined perm) (FetchResponse True (Some data)) r1 r2 st) = None \<longleftrightarrow>
     (\<exists>toks. cryptoTokensOf B data = Inr toks)"
  proof
    assume "fst (fetchTry B seen (Defined perm) (FetchResponse True (Some data)) r1 r2 st) = None"
    then show "\<exists>toks. cryptoTokensOf B data = Inr toks" by (rule fetchTry_done) auto
  next
    assume "\<exists>toks. cryptoTokensOf B data = Inr toks"
    then obtain toks where "cryptoTokensOf B data = Inr toks" by blast
    with assms show "fst (fetchTry B seen (Defined perm) (FetchResponse True (Some data)) r1 r2 st) = None"
      by (rule fetchTry_Defined)
  qed
  then show ?thesis by (simp only: cryptoTokensOf_Inr_iff)
qed

lemma fetch_throwing_field_tokens:
  assumes "data \<noteq> JNull" and "data \<noteq> JUndefined"
    and "key \<in> set [''ethereum'', ''bitcoin'', ''usd-coin'', ''chainlink'', ''uniswap'']"
    and "k \<in> set [''usd'', ''usd_24h_change'']"
    and "Number B (optMember (member data key) k) = Inl e"
  shows "fetchCryptoData B seen env (FetchResponse True (Some data)) r1 r2 st =
           st\<lparr>console := console st @ [TypeError], loading := False\<rparr>"
proof -
  have "\<not> (\<exists>toks. cryptoTokensOf B data = Inr toks)"
    unfolding cryptoTokensOf_Inr_iff using assms(3,4,5) by (metis Inl_Inr_False)
  then obtain e' where e': "cryptoTokensOf B data = Inl e'"
    by (cases "cryptoTokensOf B data") auto
  then have "e' = TypeError" by (rule cryptoTokensOf_throws)
  with e' fetch_throwing_field[OF assms(1,2), of B e' seen env r1 r2 st] show ?thesis by simp
qed

subsection \<open>The synthesized token\<close>

lemma round64_half_range:
  assumes "0 \<le> r" and "r < 1"
  shows "- (1 / 2) \<le> round64 (r - 1 / 2)" and "round64 (r - 1 / 2) \<le> 1 / 2"
proof -
  have "round64 (- (1 / 2)) \<le> round64 (r - 1 / 2)" using assms(1) by (intro round64_mono) simp
  then show "- (1 / 2) \<le> round64 (r - 1 / 2)" by (simp only: round64_neg round64_half)
  have "round64 (r - 1 / 2) \<le> round64 (1 / 2)" using assms(2) by (intro round64_mono) simp
  then show "round64 (r - 1 / 2) \<le> 1 / 2" by (simp only: round64_half)
qed

lemma lit_half: "lit (1 / 2) = Fin (1 / 2)"
  by (simp add: lit_small round64_half)

lemma jitter_sub:
  assumes "0 \<le> r" and "r < 1"
  shows "js_sub (Fin r) (lit 0.5) = Fin (round64 (r - 1 / 2))"
proof -
  have "\<bar>r + - (1 / 2)\<bar> \<le> 2 ^ 53" using assms by simp
  then have "fl (r + - (1 / 2)) = Fin (round64 (r + - (1 / 2)))" by (rule fl_small)
  then show ?thesis by (simp add: js_sub_def lit_half)
qed

lemma jitter_sub_half:
  assumes "0 \<le> r" and "r < 1"
  shows "js_sub (Fin r) (Fin (1 / 2)) = Fin (round64 (r - 1 / 2))"
  using jitter_sub[OF assms] by (simp add: lit_half)

lemma rne_tie_even:
  assumes "y = of_int n + 1 / 2" and "even n"
  shows "rne y = n"
proof -
  have "\<lfloor>y\<rfloor> = n" unfolding assms(1) by (intro floor_unique) simp_all
  with assms show ?thesis by (simp add: rne_def Let_def)
qed

lemma round64_tie_even:
  assumes "0 < x" and "2 powi k \<le> x" and "x < 2 powi (k + 1)" and "- 1022 \<le> k"
    and "x / 2 powi (k - 52) = of_int n + 1 / 2" and "even n"
  shows "round64 x = of_int n * 2 powi (k - 52)"
proof -
  have "round64 x = of_int (rne (x / 2 powi (k - 52))) * 2 powi (k - 52)"
    using assms(1-4) by (rule round64_eval)
  also have "rne (x / 2 powi (k - 52)) = n" using assms(5,6) by (rule rne_tie_even)
  finally show ?thesis .
qed

lemma air_price:
  assumes "0 \<le> r1" and "r1 < 1"
  shows "price (projr (airTokenDataOf B r1 r2)) =
     Fin (round64 (3896874685571143 / 2 ^ 59 +
                   round64 (round64 (r1 - 1 / 2) * (7378697629483821 / 2 ^ 67))))"
proof -
  let ?d = "round64 (r1 - 1 / 2)"
  let ?b = "7378697629483821 / 2 ^ 67 :: real"
  let ?a = "3896874685571143 / 2 ^ 59 :: real"
  note d = round64_half_range[OF assms]
  have b: "0 < ?b" "?b \<le> 1" by simp_all
  have db: "- (1 / 2) * ?b \<le> ?d * ?b" "?d * ?b \<le> 1 / 2 * ?b"
    using d b(1) by (simp_all only: mult_le_cancel_right_pos)
  then have "\<bar>?d * ?b\<bar> \<le> 2 ^ 53" by simp
  then have m: "fl (?d * ?b) = Fin (round64 (?d * ?b))" by (rule fl_small)
  have "round64 (- (1 / 2) * ?b) \<le> round64 (?d * ?b)" using db(1) by (rule round64_mono)
  moreover have "round64 (?d * ?b) \<le> round64 (1 / 2 * ?b)" using db(2) by (rule round64_mono)
  moreover have "round64 (1 / 2 * ?b) \<le> round64 1" by (rule round64_mono) simp
  moreover have "round64 (- 1) \<le> round64 (- (1 / 2) * ?b)" by (rule round64_mono) simp
  ultimately have "\<bar>round64 (?d * ?b)\<bar> \<le> 1" by (simp add: round64_neg round64_1)
  then have "\<bar>?a + round64 (?d * ?b)\<bar> \<le> 2 ^ 53" by simp
  then have s: "fl (?a + round64 (?d * ?b)) = Fin (round64 (?a + round64 (?d * ?b)))"
    by (rule fl_small)
  show ?thesis
    unfolding airTokenDataOf_def Let_def jitter_sub[OF assms] lit_air js_mul.simps js_add.simps
      m s safeNumber_Fin
    by (simp add: safeNumber_JNum)
qed

lemma air_change:
  assumes "0 \<le> r2" and "r2 < 1"
  shows "change24h (projr (airTokenDataOf B r1 r2)) =
     Fin (round64 (8106479329266893 / 2 ^ 52 + round64 (round64 (r2 - 1 / 2) * 3)))"
proof -
  let ?d = "round64 (r2 - 1 / 2)"
  let ?c = "8106479329266893 / 2 ^ 52 :: real"
  note d = round64_half_range[OF assms]
  have db: "- (3 / 2) \<le> ?d * 3" "?d * 3 \<le> 3 / 2" using d by simp_all
  then have "\<bar>?d * 3\<bar> \<le> 2 ^ 53" by simp
  then have m: "fl (?d * 3) = Fin (round64 (?d * 3))" by (rule fl_small)
  have "round64 (- (3 / 2)) \<le> round64 (?d * 3)" using db(1) by (rule round64_mono)
  moreover have "round64 (?d * 3) \<le> round64 (3 / 2)" using db(2) by (rule round64_mono)
  ultimately have "\<bar>round64 (?d * 3)\<bar> \<le> 3 / 2" by (simp add: round64_neg round64_3_2)
  then have "\<bar>?c + round64 (?d * 3)\<bar> \<le> 2 ^ 53" by simp
  then have s: "fl (?c + round64 (?d * 3)) = Fin (round64 (?c + round64 (?d * 3)))"
    by (rule fl_small)
  show ?thesis
    unfolding airTokenDataOf_def Let_def lit_air lit_exact jitter_sub_half[OF assms]
      js_mul.simps js_add.simps m s safeNumber_Fin
    by (simp add: safeNumber_JNum)
qed

lemma round64_half_b: "round64 (1 / 2 * (7378697629483821 / 2 ^ 67)) = 7378697629483821 / 2 ^ 68"
  using round64_exact[where x = "7378697629483821 / 2 ^ 68" and k = "- 16" and n = 7378697629483821]
  by (simp add: powi_neg_numeral)

lemma round64_price_low:
  "round64 (3896874685571143 / 2 ^ 59 + - (7378697629483821 / 2 ^ 68)) = 7764926333527115 / 2 ^ 60"
  using round64_nearest[where x = "3896874685571143 / 2 ^ 59 + - (7378697629483821 / 2 ^ 68)"
      and k = "- 8" and n = 7764926333527115]
  by (simp add: powi_neg_numeral)

lemma round64_price_high:
  "round64 (3896874685571143 / 2 ^ 59 + 7378697629483821 / 2 ^ 68) = 7822572408757457 / 2 ^ 60"
  using round64_nearest[where x = "3896874685571143 / 2 ^ 59 + 7378697629483821 / 2 ^ 68"
      and k = "- 8" and n = 7822572408757457]
  by (simp add: powi_neg_numeral)

lemma round64_change_low:
  "round64 (8106479329266893 / 2 ^ 52 + - (3 / 2)) = 1351079888211149 / 2 ^ 52"
  using round64_exact[where x = "1351079888211149 / 2 ^ 52" and k = "- 2" and n = 5404319552844596]
  by (simp add: powi_neg_numeral)

lemma round64_change_high:
  "round64 (8106479329266893 / 2 ^ 52 + 3 / 2) = 3715469692580659 / 2 ^ 50"
  using round64_tie_even[where x = "8106479329266893 / 2 ^ 52 + 3 / 2" and k = 1
      and n = 7430939385161318]
  by (simp add: powi_neg_numeral powi_numeral)

lemma price_range:
  assumes "0 \<le> r" and "r < 1"
  shows "7764926333527115 / 2 ^ 60
           \<le> round64 (3896874685571143 / 2 ^ 59 +
                       round64 (round64 (r - 1 / 2) * (7378697629483821 / 2 ^ 67)))"
    and "round64 (3896874685571143 / 2 ^ 59 +
                  round64 (round64 (r - 1 / 2) * (7378697629483821 / 2 ^ 67)))
           \<le> 7822572408757457 / 2 ^ 60"
proof -
  let ?d = "round64 (r - 1 / 2)"
  let ?b = "7378697629483821 / 2 ^ 67 :: real"
  let ?a = "3896874685571143 / 2 ^ 59 :: real"
  note d = round64_half_range[OF assms]
  have b: "0 < ?b" by simp
  have db: "- (1 / 2 * ?b) \<le> ?d * ?b" "?d * ?b \<le> 1 / 2 * ?b"
    using d b by (simp_all add: mult_le_cancel_right_pos del: of_int_numeral)
  have "round64 (- (1 / 2 * ?b)) \<le> round64 (?d * ?b)" using db(1) by (rule round64_mono)
  then have lo: "- (7378697629483821 / 2 ^ 68) \<le> round64 (?d * ?b)"
    by (simp only: round64_neg round64_half_b)
  have "round64 (?d * ?b) \<le> round64 (1 / 2 * ?b)" using db(2) by (rule round64_mono)
  then have hi: "round64 (?d * ?b) \<le> 7378697629483821 / 2 ^ 68" by (simp only: round64_half_b)
  have "round64 (?a + - (7378697629483821 / 2 ^ 68)) \<le> round64 (?a + round64 (?d * ?b))"
    using lo by (intro round64_mono) (simp only: add_le_cancel_left)
  then show "7764926333527115 / 2 ^ 60 \<le> round64 (?a + round64 (?d * ?b))"
    by (simp only: round64_price_low)
  have "round64 (?a + round64 (?d * ?b)) \<le> round64 (?a + 7378697629483821 / 2 ^ 68)"
    using hi by (intro round64_mono) (simp only: add_le_cancel_left)
  then show "round64 (?a + round64 (?d * ?b)) \<le> 7822572408757457 / 2 ^ 60"
    by (simp only: round64_price_high)
qed

lemma change_range:
  assumes "0 \<le> r" and "r < 1"
  shows "1351079888211149 / 2 ^ 52
           \<le> round64 (8106479329266893 / 2 ^ 52 + round64 (round64 (r - 1 / 2) * 3))"
    and "round64 (8106479329266893 / 2 ^ 52 + round64 (round64 (r - 1 / 2) * 3))
           \<le> 3715469692580659 / 2 ^ 50"
proof -
  let ?d = "round64 (r - 1 / 2)"
  let ?c = "8106479329266893 / 2 ^ 52 :: real"
  note d = round64_half_range[OF assms]
  have db: "- (3 / 2) \<le> ?d * 3" "?d * 3 \<le> 3 / 2" using d by simp_all
  have "round64 (- (3 / 2)) \<le> round64 (?d * 3)" using db(1) by (rule round64_mono)
  then have lo: "- (3 / 2) \<le> round64 (?d * 3)" by (simp only: round64_neg round64_3_2)
  have "round64 (?d * 3) \<le> round64 (3 / 2)" using db(2) by (rule round64_mono)
  then have hi: "round64 (?d * 3) \<le> 3 / 2" by (simp only: round64_3_2)
  have "round64 (?c + - (3 / 2)) \<le> round64 (?c + round64 (?d * 3))"
    using lo by (intro round64_mono) (simp only: add_le_cancel_left)
  then show "1351079888211149 / 2 ^ 52 \<le> round64 (?c + round64 (?d * 3))"
    by (simp only: round64_change_low)
  have "round64 (?c + round64 (?d * 3)) \<le> round64 (?c + 3 / 2)"
    using hi by (intro round64_mono) (simp only: add_le_cancel_left)
  then show "round64 (?c + round64 (?d * 3)) \<le> 3715469692580659 / 2 ^ 50"
    by (simp only: round64_change_high)
qed

subsection \<open>The largest jitter\<close>

lemma top_jitter_sub: "round64 (1 - 1 / 2 ^ 52 - 1 / 2) = 2251799813685247 / 2 ^ 52"
  using round64_exact[where x = "1 - 1 / 2 ^ 52 - 1 / 2" and k = "- 2" and n = 9007199254740988]
  by (simp add: powi_neg_numeral)

lemma top_jitter_mul:
  "round64 (2251799813685247 / 2 ^ 52 * (7378697629483821 / 2 ^ 67)) = 7378697629483818 / 2 ^ 68"
  using round64_nearest[where x = "2251799813685247 / 2 ^ 52 * (7378697629483821 / 2 ^ 67)"
      and k = "- 16" and n = 7378697629483818]
  by (simp add: powi_neg_numeral)

lemma top_jitter_add:
  "round64 (3896874685571143 / 2 ^ 59 + 7378697629483818 / 2 ^ 68) = 7822572408757457 / 2 ^ 60"
  using round64_nearest[where x = "3896874685571143 / 2 ^ 59 + 7378697629483818 / 2 ^ 68"
      and k = "- 8" and n = 7822572408757457]
  by (simp add: powi_neg_numeral)

lemma top_jitter_price:
  "price (projr (airTokenDataOf B (1 - 1 / 2 ^ 52) r2)) = Fin (7822572408757457 / 2 ^ 60)"
proof -
  have r: "0 \<le> (1 - 1 / 2 ^ 52 :: real)" "(1 - 1 / 2 ^ 52 :: real) < 1" by simp_all
  show ?thesis
    unfolding air_price[OF r] top_jitter_sub top_jitter_mul top_jitter_add ..
qed

lemma airTokenDataOf_projr: "airTokenDataOf B r1 r2 = Inr (projr (airTokenDataOf B r1 r2))"
  using airTokenDataOf_Inr[of B r1 r2] by auto

lemma cryptoTokensOf_empty: "\<exists>toks. cryptoTokensOf B (JObject []) = Inr toks"
  by (simp add: cryptoTokensOf_Inr_iff member_def optMember_def)

lemma fetch_done_air:
  assumes "fst (fetchTry B seen env outcome r1 r2 st) = None"
  shows "airToken (fetchCryptoData B seen env outcome r1 r2 st) =
           Some (projr (airTokenDataOf B r1 r2))"
proof -
  from assms obtain tok where "airTokenDataOf B r1 r2 = Inr tok"
    "airToken (fetchCryptoData B seen env outcome r1 r2 st) = Some tok"
    by (rule fetchTry_done)
  then show ?thesis by simp
qed

lemma fetch_empty_object_succeeds:
  "fst (fetchTry B seen (Defined perm) (FetchResponse True (Some (JObject []))) r1 r2 st) = None"
proof -
  obtain toks where t: "cryptoTokensOf B (JObject []) = Inr toks"
    using cryptoTokensOf_empty by blast
  show ?thesis by (rule fetchTry_Defined[OF _ _ t]) simp_all
qed

subsection \<open>The fetch cycle and inactive alerts\<close>


subsection \<open>The cycle of the timer\<close>

lemma check_throws_NotDefined:
  "\<exists>a \<in> set seen. fires symb p a \<Longrightarrow>
   checkPriceAlerts B seen NotDefined p symb st = (Some ReferenceError, st)"
  by (simp add: check_NotDefined)

section \<open>The trigger condition (C1)\<close>

text \<open>
  Claim C1 does not hold of the running component. The evaluator is called by the fetch
  cycle only, and the cycle that runs, once at startup and then on every tick of the
  timer, is the function of the first render, whose alert list is the empty list of
  line 39. Whatever the state, the outcome of the request and the prices fetched, such a
  cycle leaves the alert list and the notifications as they are: an alert created by the
  user is never triggered and never marked inactive. Where \<^verbatim>\<open>Notification\<close> is not defined,
  the evaluator run on a list with an alert that fires throws at line 132 and changes
  nothing.
\<close>

theorem timer_cycle_never_triggers:
  "alerts (intervalCycle B env outcome r1 r2 st) = alerts st \<and>
   notifications (intervalCycle B env outcome r1 r2 st) = notifications st \<and>
   ((\<exists>a \<in> set seen. alertSymbol a = symb \<and> isActive a \<and> shouldTrigger a p) \<longrightarrow>
      checkPriceAlerts B seen NotDefined p symb st = (Some ReferenceError, st))"
  using interval_cycle_sees_no_alerts[of B env outcome r1 r2 st]
    check_throws_NotDefined[of seen symb p B st]
  by (simp only: fires_def) blast

text \<open>
  The input of claim C1: an \<^verbatim>\<open>above\<close> alert on ETH with threshold 3000, created after the
  first render, and a cycle of the timer that fetches the price 3000 for ETH with
  permission granted. ETH is shown at 3000, which is \<^verbatim>\<open>>=\<close> the threshold; the alert is
  still active and nothing was notified. The evaluator of the current render, were it
  called, would notify once and mark the alert inactive; without \<^verbatim>\<open>Notification\<close> it would
  throw and leave the alert active.
\<close>

theorem timer_cycle_never_triggers_witness:
  "map alertSymbol (alerts (createAlert 1700000000000 ''ETH'' Above (lit 3000) initialState)) =
     [''ETH''] \<and>
   map alertType (alerts (createAlert 1700000000000 ''ETH'' Above (lit 3000) initialState)) =
     [Above] \<and>
   map threshold (alerts (createAlert 1700000000000 ''ETH'' Above (lit 3000) initialState)) =
     [Fin 3000] \<and>
   map isActive (alerts (createAlert 1700000000000 ''ETH'' Above (lit 3000) initialState)) =
     [True] \<and>
   map (\<lambda>t. (symbol t, price t))
     (tokens (intervalCycle sampleBuiltins (Defined Granted)
        (FetchResponse True (Some (JObject [(''ethereum'', JObject [(''usd'', JNum (lit 3000))])])))
        0 0 (createAlert 1700000000000 ''ETH'' Above (lit 3000) initialState))) ! 0 =
     (''ETH'', Fin 3000) \<and>
   js_ge (Fin 3000) (Fin 3000) \<and>
   map isActive
     (alerts (intervalCycle sampleBuiltins (Defined Granted)
        (FetchResponse True (Some (JObject [(''ethereum'', JObject [(''usd'', JNum (lit 3000))])])))
        0 0 (createAlert 1700000000000 ''ETH'' Above (lit 3000) initialState))) = [True] \<and>
   notifications (intervalCycle sampleBuiltins (Defined Granted)
        (FetchResponse True (Some (JObject [(''ethereum'', JObject [(''usd'', JNum (lit 3000))])])))
        0 0 (createAlert 1700000000000 ''ETH'' Above (lit 3000) initialState)) = [] \<and>
   map isActive
     (alerts (snd (checkPriceAlerts sampleBuiltins
        (alerts (createAlert 1700000000000 ''ETH'' Above (lit 3000) initialState))
        (Defined Granted) (lit 3000) ''ETH''
        (createAlert 1700000000000 ''ETH'' Above (lit 3000) initialState)))) = [False] \<and>
   length (notifications (snd (checkPriceAlerts sampleBuiltins
        (alerts (createAlert 1700000000000 ''ETH'' Above (lit 3000) initialState))
        (Defined Granted) (lit 3000) ''ETH''
        (createAlert 1700000000000 ''ETH'' Above (lit 3000) initialState)))) = 1 \<and>
   checkPriceAlerts sampleBuiltins
        (alerts (createAlert 1700000000000 ''ETH'' Above (lit 3000) initialState))
        NotDefined (lit 3000) ''ETH''
        (createAlert 1700000000000 ''ETH'' Above (lit 3000) initialState) =
     (Some ReferenceError, createAlert 1700000000000 ''ETH'' Above (lit 3000) initialState)"
proof -
  let ?st = "createAlert 1700000000000 ''ETH'' Above (lit 3000) initialState"
  let ?d = "JObject [(''ethereum'', JObject [(''usd'', JNum (lit 3000))])]"
  let ?a = "\<lparr>alertId = intToString 1700000000000, alertSymbol = ''ETH'', alertType = Above,
             threshold = Fin 3000, isActive = True\<rparr>"
  have al: "alerts ?st = [?a]" by (simp add: createAlert_alerts lit_exact initialState_def)
  have no: "notifications ?st = []" by (simp add: createAlert_def Let_def initialState_def)
  note t = timer_cycle_never_triggers[where B = sampleBuiltins and env = "Defined Granted"
      and outcome = "FetchResponse True (Some ?d)" and ?r1.0 = 0 and ?r2.0 = 0 and st = ?st
      and seen = "alerts ?st" and symb = "''ETH''" and p = "lit 3000"]
  have f: "\<exists>a \<in> set (alerts ?st). alertSymbol a = ''ETH'' \<and> isActive a \<and> shouldTrigger a (lit 3000)"
    unfolding al by (simp add: shouldTrigger_def lit_exact js_ge_Fin)
  from t have 1: "alerts (intervalCycle sampleBuiltins (Defined Granted)
        (FetchResponse True (Some ?d)) 0 0 ?st) = alerts ?st" by blast
  from t have 2: "notifications (intervalCycle sampleBuiltins (Defined Granted)
        (FetchResponse True (Some ?d)) 0 0 ?st) = notifications ?st" by blast
  from t f have 3: "checkPriceAlerts sampleBuiltins (alerts ?st) NotDefined (lit 3000) ''ETH'' ?st =
     (Some ReferenceError, ?st)" by blast
  have h: "?d \<noteq> JNull" "?d \<noteq> JUndefined" by simp_all
  have c: "cryptoTokensOf sampleBuiltins ?d =
     Inr [\<lparr>symbol = ''ETH'', name = ''Ethereum'', price = Fin 3000, change24h = Fin 0, contract = None\<rparr>,
          \<lparr>symbol = ''BTC'', name = ''Bitcoin'', price = lit 43250, change24h = Fin 0, contract = None\<rparr>,
          \<lparr>symbol = ''USDC'', name = ''USD Coin'', price = lit 1.0, change24h = Fin 0, contract = None\<rparr>,
          \<lparr>symbol = ''LINK'', name = ''Chainlink'', price = lit 14.85, change24h = Fin 0, contract = None\<rparr>,
          \<lparr>symbol = ''UNI'', name = ''Uniswap'', price = lit 6.42, change24h = Fin 0, contract = None\<rparr>]"
    using lit_exact(6)
    by (simp add: cryptoTokensOf_def tokenOf_def safeNumber_char member_def optMember_def
        isFinite_def)
  have 4: "map (\<lambda>t. (symbol t, price t))
     (tokens (intervalCycle sampleBuiltins (Defined Granted) (FetchResponse True (Some ?d))
        0 0 ?st)) ! 0 = (''ETH'', Fin 3000)"
    unfolding intervalCycle_def fetch_Nil_tokens[OF h c] by simp
  have 5: "map isActive (alerts (snd (checkPriceAlerts sampleBuiltins (alerts ?st)
        (Defined Granted) (lit 3000) ''ETH'' ?st))) = [False]"
    unfolding check_alerts al
    by (simp add: reached_def fires_def shouldTrigger_def lit_exact js_ge_Fin)
  have 6: "length (notifications (snd (checkPriceAlerts sampleBuiltins (alerts ?st)
        (Defined Granted) (lit 3000) ''ETH'' ?st))) = 1"
    unfolding check_notifications al no
    by (simp add: fires_def shouldTrigger_def lit_exact js_ge_Fin)
  have 7: "js_ge (Fin 3000) (Fin 3000)" by (simp add: js_ge_Fin)
  have 8: "map alertSymbol (alerts ?st) = [''ETH'']" "map alertType (alerts ?st) = [Above]"
    "map threshold (alerts ?st) = [Fin 3000]" "map isActive (alerts ?st) = [True]"
    unfolding al by simp_all
  have i1: "map isActive (alerts (intervalCycle sampleBuiltins (Defined Granted)
        (FetchResponse True (Some ?d)) 0 0 ?st)) = [True]"
    unfolding 1 by (rule 8(4))
  have i2: "notifications (intervalCycle sampleBuiltins (Defined Granted)
        (FetchResponse True (Some ?d)) 0 0 ?st) = []"
    unfolding 2 by (rule no)
  from 8 4 7 i1 i2 5 6 3 show ?thesis by (intro conjI)
qed

section \<open>Inactive alerts (C2)\<close>



section \<open>The numeric safety helper (C3)\<close>

text \<open>
  Claim C3 as stated fails. The helper coerces with \<^verbatim>\<open>Number(value)\<close> before it tests, so
  \<^verbatim>\<open>null\<close> and \<^verbatim>\<open>true\<close>, which are not numbers, come back as 0 and 1 and not as the fallback.
\<close>

theorem safeNumber_null_counterexample:
  "safeNumber sampleBuiltins JNull (Fin 2340) = Inr (Fin 0) \<and>
   safeNumber sampleBuiltins JNull (Fin 2340) \<noteq> Inr (Fin 2340) \<and>
   safeNumber sampleBuiltins (JBool True) (Fin 2340) = Inr (Fin 1)"
  by (simp add: safeNumber_def isNaN_def isFinite_def)

text \<open>
  Claim C3, amended. A finite number is returned unchanged. The fallback is returned for
  \<^verbatim>\<open>undefined\<close>, \<^verbatim>\<open>NaN\<close>, both infinities, an object with no property \<^verbatim>\<open>toString\<close> of its own, a
  string that does not convert to a finite number, and in general whenever
  \<^verbatim>\<open>Number(value)\<close> is a number that is not finite; when it is finite the result is
  \<^verbatim>\<open>Number(value)\<close>. When \<^verbatim>\<open>Number(value)\<close> throws, the error is a \<^verbatim>\<open>TypeError\<close> and the helper
  throws it: so for an object that has a property \<^verbatim>\<open>toString\<close> of its own.
\<close>

theorem safeNumber_finite_or_fallback:
  "safeNumber B (JNum (Fin x)) fb = Inr (Fin x) \<and>
   safeNumber B JUndefined fb = Inr fb \<and>
   safeNumber B (JNum NaN) fb = Inr fb \<and>
   safeNumber B (JNum PosInf) fb = Inr fb \<and>
   safeNumber B (JNum NegInf) fb = Inr fb \<and>
   (map_of kvs ''toString'' = None \<longrightarrow> safeNumber B (JObject kvs) fb = Inr fb) \<and>
   (map_of kvs ''toString'' \<noteq> None \<longrightarrow> safeNumber B (JObject kvs) fb = Inl TypeError) \<and>
   (\<not> isFinite (StringToNumber B s) \<longrightarrow> safeNumber B (JString s) fb = Inr fb) \<and>
   (\<forall>n. Number B v = Inr n \<and> \<not> isFinite n \<longrightarrow> safeNumber B v fb = Inr fb) \<and>
   (\<forall>n. Number B v = Inr n \<and> isFinite n \<longrightarrow> safeNumber B v fb = Inr n) \<and>
   (\<forall>e. Number B v = Inl e \<longrightarrow> e = TypeError \<and> safeNumber B v fb = Inl TypeError)"
proof -
  have t: "\<forall>e. Number B v = Inl e \<longrightarrow> e = TypeError \<and> safeNumber B v fb = Inl TypeError"
  proof (intro allI impI)
    fix e assume n: "Number B v = Inl e"
    then have "e = TypeError" by (rule Number_throws)
    with n show "e = TypeError \<and> safeNumber B v fb = Inl TypeError"
      by (simp add: safeNumber_char)
  qed
  have r: "safeNumber B (JNum (Fin x)) fb = Inr (Fin x) \<and>
   safeNumber B JUndefined fb = Inr fb \<and>
   safeNumber B (JNum NaN) fb = Inr fb \<and>
   safeNumber B (JNum PosInf) fb = Inr fb \<and>
   safeNumber B (JNum NegInf) fb = Inr fb \<and>
   (map_of kvs ''toString'' = None \<longrightarrow> safeNumber B (JObject kvs) fb = Inr fb) \<and>
   (map_of kvs ''toString'' \<noteq> None \<longrightarrow> safeNumber B (JObject kvs) fb = Inl TypeError) \<and>
   (\<not> isFinite (StringToNumber B s) \<longrightarrow> safeNumber B (JString s) fb = Inr fb) \<and>
   (\<forall>n. Number B v = Inr n \<and> \<not> isFinite n \<longrightarrow> safeNumber B v fb = Inr fb) \<and>
   (\<forall>n. Number B v = Inr n \<and> isFinite n \<longrightarrow> safeNumber B v fb = Inr n)"
    by (simp add: safeNumber_char isFinite_def)
  from r t show ?thesis by blast
qed

theorem safeNumber_finite_or_fallback_witness:
  "\<not> isFinite (StringToNumber sampleBuiltins ''abc'') \<and>
   safeNumber sampleBuiltins (JString ''abc'') (Fin 7) = Inr (Fin 7) \<and>
   Number sampleBuiltins (JNum (Fin 3)) = Inr (Fin 3) \<and> isFinite (Fin 3) \<and>
   safeNumber sampleBuiltins (JNum (Fin 3)) (Fin 7) = Inr (Fin 3) \<and>
   Number sampleBuiltins JUndefined = Inr NaN \<and> \<not> isFinite NaN \<and>
   safeNumber sampleBuiltins JUndefined (Fin 7) = Inr (Fin 7) \<and>
   map_of [(''usd'', JNum (Fin 1))] ''toString'' = None \<and>
   safeNumber sampleBuiltins (JObject [(''usd'', JNum (Fin 1))]) (Fin 7) = Inr (Fin 7) \<and>
   map_of [(''toString'', JNum (Fin 1))] ''toString'' \<noteq> None \<and>
   safeNumber sampleBuiltins (JObject [(''toString'', JNum (Fin 1))]) (Fin 7) = Inl TypeError \<and>
   Number sampleBuiltins (JArray [JObject [(''toString'', JNum (Fin 1))]]) = Inl TypeError \<and>
   safeNumber sampleBuiltins (JArray [JObject [(''toString'', JNum (Fin 1))]]) (Fin 7) =
     Inl TypeError"
  using safeNumber_finite_or_fallback[of sampleBuiltins 3 "Fin 7" "[(''usd'', JNum (Fin 1))]"
      "''abc''" "JNum (Fin 3)"]
    safeNumber_finite_or_fallback[of sampleBuiltins 3 "Fin 7" "[(''toString'', JNum (Fin 1))]"
      "''abc''" JUndefined]
    safeNumber_finite_or_fallback[of sampleBuiltins 3 "Fin 7" "[]"
      "''abc''" "JArray [JObject [(''toString'', JNum (Fin 1))]]"]
  by (simp add: isFinite_def sampleBuiltins_def)

section \<open>A failed fetch cycle (C4)\<close>

text \<open>
  Claim C4. When the request is rejected, the response is not \<^verbatim>\<open>ok\<close>, its text is not JSON,
  or the parsed value is \<^verbatim>\<open>null\<close>, the cycle leaves the token list, the synthesized token,
  the alert list and the notifications as they were; it logs one error and clears the
  loading flag.
\<close>

theorem failed_fetch_keeps_display:
  assumes "outcome = FetchRejected \<or> outcome = FetchResponse False parsed \<or>
           outcome = FetchResponse True None \<or> outcome = FetchResponse True (Some JNull)"
  shows "tokens (fetchCryptoData B seen env outcome r1 r2 st) = tokens st \<and>
         airToken (fetchCryptoData B seen env outcome r1 r2 st) = airToken st \<and>
         alerts (fetchCryptoData B seen env outcome r1 r2 st) = alerts st \<and>
         notifications (fetchCryptoData B seen env outcome r1 r2 st) = notifications st \<and>
         showAlertModal (fetchCryptoData B seen env outcome r1 r2 st) = showAlertModal st \<and>
         loading (fetchCryptoData B seen env outcome r1 r2 st) = False \<and>
         (\<exists>e. console (fetchCryptoData B seen env outcome r1 r2 st) = console st @ [e])"
proof -
  from assms obtain e where "fetchTry B seen env outcome r1 r2 st = (Some e, st)"
    by (auto simp: fetchTry_failed)
  then have "fetchCryptoData B seen env outcome r1 r2 st =
      st\<lparr>console := console st @ [e], loading := False\<rparr>" by (rule fetch_caught)
  then show ?thesis by simp
qed

theorem failed_fetch_keeps_display_witness:
  "(FetchResponse True None = FetchRejected \<or> FetchResponse True None = FetchResponse False None \<or>
    FetchResponse True None = FetchResponse True None \<or>
    FetchResponse True None = FetchResponse True (Some JNull)) \<and>
   alerts (fetchCryptoData sampleBuiltins
      [\<lparr>alertId = ''1'', alertSymbol = ''AIR'', alertType = Above, threshold = Fin 0, isActive = True\<rparr>]
      (Defined Granted) (FetchResponse True None) 0 0
      (initialState\<lparr>alerts :=
        [\<lparr>alertId = ''1'', alertSymbol = ''AIR'', alertType = Above, threshold = Fin 0, isActive = True\<rparr>]\<rparr>))
    = [\<lparr>alertId = ''1'', alertSymbol = ''AIR'', alertType = Above, threshold = Fin 0, isActive = True\<rparr>] \<and>
   tokens (fetchCryptoData sampleBuiltins
      [\<lparr>alertId = ''1'', alertSymbol = ''AIR'', alertType = Above, threshold = Fin 0, isActive = True\<rparr>]
      (Defined Granted) (FetchResponse True None) 0 0
      (initialState\<lparr>alerts :=
        [\<lparr>alertId = ''1'', alertSymbol = ''AIR'', alertType = Above, threshold = Fin 0, isActive = True\<rparr>]\<rparr>))
    = []"
  using failed_fetch_keeps_display[where outcome = "FetchResponse True None" and parsed = None
      and B = sampleBuiltins and env = "Defined Granted" and ?r1.0 = 0 and ?r2.0 = 0
      and seen = "[\<lparr>alertId = ''1'', alertSymbol = ''AIR'', alertType = Above, threshold = Fin 0, isActive = True\<rparr>]"
      and st = "initialState\<lparr>alerts :=
        [\<lparr>alertId = ''1'', alertSymbol = ''AIR'', alertType = Above, threshold = Fin 0, isActive = True\<rparr>]\<rparr>"]
  by (simp add: initialState_def)

section \<open>The percent and price formatters (C5)\<close>

text \<open>
  Claim C5 as stated fails at zero: the sign is chosen by \<^verbatim>\<open>change > 0\<close>, so zero, which is
  not negative, is printed without \<^verbatim>\<open>+\<close>.
\<close>

theorem formatChange_zero_counterexample:
  "formatChange sampleBuiltins (JNum (Fin 0)) = Inr ''0.00%'' \<and>
   formatChange_exported sampleBuiltins (Fin 0) = ''0.00%''"
  by (simp add: formatChange_def formatChange_exported_def safeNumber_Fin js_gt_def toFixed_def
      fixedDigits_def Let_def digitsOf_0 replicate_numeral)

text \<open>
  Claim C5, amended. For a finite change \<open>c\<close> of magnitude below \<open>10\<^sup>2\<^sup>1\<close>, both percent
  formatters give the sign (\<^verbatim>\<open>+\<close> when \<open>c\<close> is strictly positive, \<^verbatim>\<open>-\<close> when it is negative,
  none at zero), then the digits of \<open>n div 100\<close>, a point, the two digits of \<open>n mod 100\<close> and
  \<^verbatim>\<open>%\<close>, where \<open>n\<close> is the number of hundredths nearest to \<open>\<bar>c\<bar>\<close>, the larger of two; so
  the value printed is within half a hundredth of \<open>c\<close>. Formatting the value of the
  literal -3.456 gives \<^verbatim>\<open>-3.46%\<close>, formatting 5 gives \<^verbatim>\<open>+5.00%\<close>, and the price 0.00676
  with 5 decimals gives \<^verbatim>\<open>0.00676\<close>. On a number the formatters of the component do not
  throw.
\<close>

theorem formatChange_two_decimals:
  assumes "\<bar>c\<bar> < 10 ^ 21"
  shows "formatChange B (JNum (Fin c)) =
           Inr ((if 0 < c then ''+'' else if c < 0 then ''-'' else '''') @
                digitsOf (nat \<lfloor>\<bar>c\<bar> * 10 ^ 2 + 1 / 2\<rfloor> div 100) @ ''.'' @
                [''0123456789'' ! (nat \<lfloor>\<bar>c\<bar> * 10 ^ 2 + 1 / 2\<rfloor> div 10 mod 10),
                 ''0123456789'' ! (nat \<lfloor>\<bar>c\<bar> * 10 ^ 2 + 1 / 2\<rfloor> mod 10)] @ ''%'') \<and>
         Inr (formatChange_exported B (Fin c)) = formatChange B (JNum (Fin c)) \<and>
         \<bar>real (nat \<lfloor>\<bar>c\<bar> * 10 ^ 2 + 1 / 2\<rfloor>) / 100 - \<bar>c\<bar>\<bar> \<le> 1 / 200 \<and>
         formatChange B (JNum (lit (- 3.456))) = Inr ''-3.46%'' \<and>
         formatChange B (JNum (lit 5)) = Inr ''+5.00%'' \<and>
         formatPrice B (JNum (lit 0.00676)) 5 = Inr ''0.00676'' \<and>
         formatChange_exported B (lit (- 3.456)) = ''-3.46%'' \<and>
         formatChange_exported B (lit 5) = ''+5.00%'' \<and>
         formatPrice_exported B (lit 0.00676) 5 = ''0.00676''"
proof -
  have t: "toFixed B (Fin c) 2 =
     (if c < 0 then ''-'' else '''') @
     digitsOf (nat \<lfloor>\<bar>c\<bar> * 10 ^ 2 + 1 / 2\<rfloor> div 100) @ ''.'' @
     [''0123456789'' ! (nat \<lfloor>\<bar>c\<bar> * 10 ^ 2 + 1 / 2\<rfloor> div 10 mod 10),
      ''0123456789'' ! (nat \<lfloor>\<bar>c\<bar> * 10 ^ 2 + 1 / 2\<rfloor> mod 10)]"
    using assms by (rule toFixed_2)
  have c1: "formatChange B (JNum (Fin c)) =
           Inr ((if 0 < c then ''+'' else if c < 0 then ''-'' else '''') @
                digitsOf (nat \<lfloor>\<bar>c\<bar> * 10 ^ 2 + 1 / 2\<rfloor> div 100) @ ''.'' @
                [''0123456789'' ! (nat \<lfloor>\<bar>c\<bar> * 10 ^ 2 + 1 / 2\<rfloor> div 10 mod 10),
                 ''0123456789'' ! (nat \<lfloor>\<bar>c\<bar> * 10 ^ 2 + 1 / 2\<rfloor> mod 10)] @ ''%'')"
    unfolding formatChange_def safeNumber_Fin sum.case t by (simp add: js_gt_def)
  have c2: "Inr (formatChange_exported B (Fin c)) = formatChange B (JNum (Fin c))"
    by (simp add: formatChange_def formatChange_exported_def safeNumber_Fin)
  have c3: "\<bar>real (nat \<lfloor>\<bar>c\<bar> * 10 ^ 2 + 1 / 2\<rfloor>) / 100 - \<bar>c\<bar>\<bar> \<le> 1 / 200"
    by (rule nearest_hundredth) simp
  have d346: "digitsOf 346 = ''346''" by (simp add: digitsOf.simps)
  have d500: "digitsOf 500 = ''500''" by (simp add: digitsOf.simps)
  have d676: "digitsOf 676 = ''676''" by (simp add: digitsOf.simps)
  have t1: "toFixed B (lit (- 3.456)) 2 = ''-3.46''"
    unfolding lit_examples by (simp add: toFixed_def Let_def fixedDigits_def d346)
  have t2: "toFixed B (lit 5) 2 = ''5.00''"
    unfolding lit_exact by (simp add: toFixed_def Let_def fixedDigits_def d500)
  have t3: "toFixed B (lit 0.00676) 5 = ''0.00676''"
    unfolding lit_air by (simp add: toFixed_def Let_def fixedDigits_def d676 replicate_numeral)
  have s1: "safeNumber B (JNum (lit (- 3.456))) (lit 0) = Inr (lit (- 3.456))"
    unfolding lit_examples by (rule safeNumber_Fin)
  have s2: "safeNumber B (JNum (lit 5)) (lit 0) = Inr (lit 5)"
    unfolding lit_exact by (rule safeNumber_Fin)
  have s3: "safeNumber B (JNum (lit 0.00676)) (lit 0) = Inr (lit 0.00676)"
    unfolding lit_air by (rule safeNumber_Fin)
  have g1: "\<not> js_gt (lit (- 3.456)) (lit 0)" unfolding lit_examples by (simp add: js_gt_def)
  have g2: "js_gt (lit 5) (lit 0)" unfolding lit_exact by (simp add: js_gt_def)
  have e1: "formatChange B (JNum (lit (- 3.456))) = Inr ''-3.46%''"
    unfolding formatChange_def s1 sum.case t1 using g1 by simp
  have e2: "formatChange B (JNum (lit 5)) = Inr ''+5.00%''"
    unfolding formatChange_def s2 sum.case t2 using g2 by simp
  have e3: "formatPrice B (JNum (lit 0.00676)) 5 = Inr ''0.00676''"
    unfolding formatPrice_def s3 sum.case t3 by simp
  have e4: "formatChange_exported B (lit (- 3.456)) = ''-3.46%''"
    unfolding formatChange_exported_def t1 using g1 by simp
  have e5: "formatChange_exported B (lit 5) = ''+5.00%''"
    unfolding formatChange_exported_def t2 using g2 by simp
  have e6: "formatPrice_exported B (lit 0.00676) 5 = ''0.00676''"
    unfolding formatPrice_exported_def t3 by simp
  from c1 c2 c3 e1 e2 e3 e4 e5 e6 show ?thesis by (intro conjI)
qed

theorem formatChange_two_decimals_witness:
  "\<bar>0.125 :: real\<bar> < 10 ^ 21 \<and> formatChange sampleBuiltins (JNum (Fin 0.125)) = Inr ''+0.13%''"
proof -
  have h: "\<bar>0.125 :: real\<bar> < 10 ^ 21" by simp
  have d: "digitsOf 0 = ''0''" by (simp add: digitsOf_lt10)
  from formatChange_two_decimals[OF h, of sampleBuiltins] h show ?thesis
    by (simp add: d)
qed

section \<open>Creating alerts (C6)\<close>

text \<open>
  Claim C6 as stated fails in its promise of a unique identifier: the identifier is the
  string of \<^verbatim>\<open>Date.now()\<close>, so two alerts created at the same clock reading share it.
\<close>

theorem createAlert_same_clock_counterexample:
  "\<not> distinct (map alertId (alerts
      (createAlert 1700000000000 ''BTC'' Below (Fin 10)
        (createAlert 1700000000000 ''ETH'' Above (Fin 3000) initialState))))"
  by (simp add: createAlert_alerts)

text \<open>
  Claim C6, amended. When \<^verbatim>\<open>parseFloat\<close> of the entered text is strictly positive, the
  submission appends exactly one alert, active, with the selected symbol and direction,
  that threshold, and the decimal string of the clock reading as identifier. That string
  differs from the string of every other clock reading, so the identifiers stay pairwise
  distinct as long as no alert of the list was created at the same reading. When the
  parsed threshold is \<^verbatim>\<open>NaN\<close> (text that is not numeric) or not above zero, the submission
  changes neither the alert list nor anything else.
\<close>

theorem alert_creation:
  "(js_gt (parseFloat B (thresholdText m)) (Fin 0) \<longrightarrow>
      alerts (snd (handleSubmit B now m st)) =
        alerts st @ [\<lparr>alertId = intToString now, alertSymbol = selectedSymbol m,
                      alertType = selectedType m, threshold = parseFloat B (thresholdText m),
                      isActive = True\<rparr>]) \<and>
   (\<not> js_gt (parseFloat B (thresholdText m)) (Fin 0) \<longrightarrow> handleSubmit B now m st = (m, st)) \<and>
   (parseFloat B (thresholdText m) = NaN \<longrightarrow> handleSubmit B now m st = (m, st)) \<and>
   (parseFloat B (thresholdText m) = Fin x \<and> x \<le> 0 \<longrightarrow> handleSubmit B now m st = (m, st)) \<and>
   (parseFloat B (thresholdText m) = Fin x \<and> 0 < x \<longrightarrow>
      js_gt (parseFloat B (thresholdText m)) (Fin 0)) \<and>
   alerts (createAlert now symb t thr st) =
     alerts st @ [\<lparr>alertId = intToString now, alertSymbol = symb, alertType = t,
                   threshold = thr, isActive = True\<rparr>] \<and>
   (earlier \<noteq> now \<longrightarrow> intToString earlier \<noteq> intToString now) \<and>
   (distinct (map alertId (alerts st)) \<and> intToString now \<notin> alertId ` set (alerts st) \<longrightarrow>
      distinct (map alertId (alerts (createAlert now symb t thr st))))"
proof -
  have a: "js_gt (parseFloat B (thresholdText m)) (Fin 0) \<longrightarrow>
      alerts (snd (handleSubmit B now m st)) =
        alerts st @ [\<lparr>alertId = intToString now, alertSymbol = selectedSymbol m,
                      alertType = selectedType m, threshold = parseFloat B (thresholdText m),
                      isActive = True\<rparr>]"
    by (simp add: handleSubmit_def Let_def createAlert_alerts)
  have b: "\<not> js_gt (parseFloat B (thresholdText m)) (Fin 0) \<longrightarrow> handleSubmit B now m st = (m, st)"
    by (simp add: handleSubmit_def Let_def)
  have c: "parseFloat B (thresholdText m) = NaN \<longrightarrow> handleSubmit B now m st = (m, st)"
    by (simp add: handleSubmit_def Let_def js_gt_def)
  have d: "parseFloat B (thresholdText m) = Fin x \<and> x \<le> 0 \<longrightarrow> handleSubmit B now m st = (m, st)"
    by (simp add: handleSubmit_def Let_def js_gt_def)
  have e: "parseFloat B (thresholdText m) = Fin x \<and> 0 < x \<longrightarrow>
      js_gt (parseFloat B (thresholdText m)) (Fin 0)"
    by (simp add: js_gt_def)
  have f: "earlier \<noteq> now \<longrightarrow> intToString earlier \<noteq> intToString now"
    using intToString_inj by blast
  have g: "distinct (map alertId (alerts st)) \<and> intToString now \<notin> alertId ` set (alerts st) \<longrightarrow>
      distinct (map alertId (alerts (createAlert now symb t thr st)))"
    by (simp add: createAlert_alerts)
  from a b c d e f g createAlert_alerts[of now symb t thr st] show ?thesis by (intro conjI)
qed

theorem alert_creation_witness:
  "js_gt (parseFloat (sampleBuiltins\<lparr>parseFloat := \<lambda>s. Fin 3000\<rparr>)
            (thresholdText \<lparr>selectedSymbol = ''ETH'', selectedType = Above, thresholdText = ''3000''\<rparr>))
         (Fin 0) \<and>
   alerts (snd (handleSubmit (sampleBuiltins\<lparr>parseFloat := \<lambda>s. Fin 3000\<rparr>) 7
        \<lparr>selectedSymbol = ''ETH'', selectedType = Above, thresholdText = ''3000''\<rparr> initialState)) =
     [\<lparr>alertId = ''7'', alertSymbol = ''ETH'', alertType = Above, threshold = Fin 3000,
       isActive = True\<rparr>] \<and>
   \<not> js_gt (parseFloat sampleBuiltins
            (thresholdText \<lparr>selectedSymbol = ''ETH'', selectedType = Above, thresholdText = ''abc''\<rparr>))
         (Fin 0) \<and>
   handleSubmit sampleBuiltins 7
        \<lparr>selectedSymbol = ''ETH'', selectedType = Above, thresholdText = ''abc''\<rparr> initialState =
     (\<lparr>selectedSymbol = ''ETH'', selectedType = Above, thresholdText = ''abc''\<rparr>, initialState)"
proof -
  let ?B = "sampleBuiltins\<lparr>parseFloat := \<lambda>s. Fin 3000\<rparr>"
  let ?m = "\<lparr>selectedSymbol = ''ETH'', selectedType = Above, thresholdText = ''3000''\<rparr>"
  let ?n = "\<lparr>selectedSymbol = ''ETH'', selectedType = Above, thresholdText = ''abc''\<rparr>"
  have h1: "js_gt (parseFloat ?B (thresholdText ?m)) (Fin 0)" by (simp add: js_gt_def)
  have h2: "\<not> js_gt (parseFloat sampleBuiltins (thresholdText ?n)) (Fin 0)"
    by (simp add: js_gt_def sampleBuiltins_def)
  have i7: "intToString 7 = ''7''" by (simp add: intToString_def digitsOf_lt10)
  from alert_creation[where B = ?B and m = ?m and now = 7 and st = initialState] h1
  have 1: "alerts (snd (handleSubmit ?B 7 ?m initialState)) =
     [\<lparr>alertId = ''7'', alertSymbol = ''ETH'', alertType = Above, threshold = Fin 3000,
       isActive = True\<rparr>]"
    by (simp add: i7 initialState_def)
  from alert_creation[where B = sampleBuiltins and m = ?n and now = 7 and st = initialState] h2
  have 2: "handleSubmit sampleBuiltins 7 ?n initialState = (?n, initialState)" by blast
  from h1 1 h2 2 show ?thesis by (intro conjI)
qed

section \<open>Deleting alerts (C7)\<close>

text \<open>
  Claim C7. Deleting by identifier keeps exactly the alerts with another identifier, so
  every alert with that identifier is removed, active or not. A fetch cycle, whatever
  its outcome and whatever list its evaluator iterates, keeps the list of identifiers,
  so after the deletion no fetch cycle, and no sequence of them, brings the identifier
  back.
\<close>

theorem deleted_alert_stays_deleted:
  "alerts (deleteAlert i st) = filter (\<lambda>a. alertId a \<noteq> i) (alerts st) \<and>
   (\<forall>a \<in> set (alerts st). alertId a = i \<longrightarrow> a \<notin> set (alerts (deleteAlert i st))) \<and>
   (\<forall>a \<in> set (alerts st). alertId a \<noteq> i \<longrightarrow> a \<in> set (alerts (deleteAlert i st))) \<and>
   i \<notin> alertId ` set (alerts (deleteAlert i st)) \<and>
   map alertId (alerts (fetchCryptoData B seen env outcome r1 r2 st)) = map alertId (alerts st) \<and>
   i \<notin> alertId ` set (alerts (fetchCryptoData B seen env outcome r1 r2 (deleteAlert i st))) \<and>
   i \<notin> alertId ` set (alerts
          (fold (\<lambda>(seen, env, outcome, r1, r2). fetchCryptoData B seen env outcome r1 r2)
                cycles (deleteAlert i st)))"
proof -
  have d: "alerts (deleteAlert i st) = filter (\<lambda>a. alertId a \<noteq> i) (alerts st)"
    by (simp add: deleteAlert_def)
  have n: "i \<notin> alertId ` set (alerts (deleteAlert i st))" by (auto simp: d)
  have s: "\<And>st'. alertId ` set (alerts st') = set (map alertId (alerts st'))" by simp
  have f1: "i \<notin> alertId ` set (alerts (fetchCryptoData B seen env outcome r1 r2 (deleteAlert i st)))"
    using n unfolding s fetch_ids .
  have f2: "i \<notin> alertId ` set (alerts
          (fold (\<lambda>(seen, env, outcome, r1, r2). fetchCryptoData B seen env outcome r1 r2)
                cycles (deleteAlert i st)))"
    using n unfolding s fold_fetch_ids .
  from d n f1 f2 fetch_ids[of B seen env outcome r1 r2 st] show ?thesis by auto
qed

theorem deleted_alert_stays_deleted_witness:
  "\<lparr>alertId = ''1'', alertSymbol = ''ETH'', alertType = Above, threshold = Fin 10, isActive = False\<rparr>
     \<in> set (alerts (initialState\<lparr>alerts :=
        [\<lparr>alertId = ''1'', alertSymbol = ''ETH'', alertType = Above, threshold = Fin 10, isActive = False\<rparr>,
         \<lparr>alertId = ''2'', alertSymbol = ''BTC'', alertType = Below, threshold = Fin 5, isActive = True\<rparr>]\<rparr>)) \<and>
   alerts (deleteAlert ''1'' (initialState\<lparr>alerts :=
        [\<lparr>alertId = ''1'', alertSymbol = ''ETH'', alertType = Above, threshold = Fin 10, isActive = False\<rparr>,
         \<lparr>alertId = ''2'', alertSymbol = ''BTC'', alertType = Below, threshold = Fin 5, isActive = True\<rparr>]\<rparr>))
    = [\<lparr>alertId = ''2'', alertSymbol = ''BTC'', alertType = Below, threshold = Fin 5, isActive = True\<rparr>]"
  using deleted_alert_stays_deleted[where i = "''1''" and st = "initialState\<lparr>alerts :=
        [\<lparr>alertId = ''1'', alertSymbol = ''ETH'', alertType = Above, threshold = Fin 10, isActive = False\<rparr>,
         \<lparr>alertId = ''2'', alertSymbol = ''BTC'', alertType = Below, threshold = Fin 5, isActive = True\<rparr>]\<rparr>"]
  by simp

section \<open>Fallback prices (C8)\<close>

text \<open>
  Claim C8 as stated fails for a field that is \<^verbatim>\<open>null\<close>: it is not a valid number, but
  \<^verbatim>\<open>Number(null)\<close> is 0, so on a successful fetch the price of ETH is 0 and not the
  fallback 2340.
\<close>

theorem fetched_null_price_counterexample:
  "fst (fetchTry sampleBuiltins [] (Defined Granted)
      (FetchResponse True (Some (JObject [(''ethereum'', JObject [(''usd'', JNull)])]))) 0 0
      initialState) = None \<and>
   map price (tokens (fetchCryptoData sampleBuiltins [] (Defined Granted)
      (FetchResponse True (Some (JObject [(''ethereum'', JObject [(''usd'', JNull)])]))) 0 0
      initialState))
   = [Fin 0, lit 43250, lit 1.0, lit 14.85, lit 6.42] \<and>
   Fin 0 \<noteq> lit 2340"
proof -
  let ?d = "JObject [(''ethereum'', JObject [(''usd'', JNull)])]"
  have h: "?d \<noteq> JNull" "?d \<noteq> JUndefined" by simp_all
  have c: "cryptoTokensOf sampleBuiltins ?d =
     Inr [\<lparr>symbol = ''ETH'', name = ''Ethereum'', price = Fin 0, change24h = Fin 0, contract = None\<rparr>,
          \<lparr>symbol = ''BTC'', name = ''Bitcoin'', price = lit 43250, change24h = Fin 0, contract = None\<rparr>,
          \<lparr>symbol = ''USDC'', name = ''USD Coin'', price = lit 1.0, change24h = Fin 0, contract = None\<rparr>,
          \<lparr>symbol = ''LINK'', name = ''Chainlink'', price = lit 14.85, change24h = Fin 0, contract = None\<rparr>,
          \<lparr>symbol = ''UNI'', name = ''Uniswap'', price = lit 6.42, change24h = Fin 0, contract = None\<rparr>]"
    by (simp add: cryptoTokensOf_def tokenOf_def safeNumber_char member_def optMember_def
        isFinite_def)
  have 1: "fst (fetchTry sampleBuiltins [] (Defined Granted) (FetchResponse True (Some ?d)) 0 0
      initialState) = None"
    using h c by (rule fetchTry_Defined)
  have 2: "tokens (fetchCryptoData sampleBuiltins [] (Defined Granted)
      (FetchResponse True (Some ?d)) 0 0 initialState) =
     [\<lparr>symbol = ''ETH'', name = ''Ethereum'', price = Fin 0, change24h = Fin 0, contract = None\<rparr>,
          \<lparr>symbol = ''BTC'', name = ''Bitcoin'', price = lit 43250, change24h = Fin 0, contract = None\<rparr>,
          \<lparr>symbol = ''USDC'', name = ''USD Coin'', price = lit 1.0, change24h = Fin 0, contract = None\<rparr>,
          \<lparr>symbol = ''LINK'', name = ''Chainlink'', price = lit 14.85, change24h = Fin 0, contract = None\<rparr>,
          \<lparr>symbol = ''UNI'', name = ''Uniswap'', price = lit 6.42, change24h = Fin 0, contract = None\<rparr>]"
    using h c by (rule fetch_Nil_tokens)
  have 3: "Fin 0 \<noteq> lit 2340" by (simp add: lit_exact)
  from 1 3 show ?thesis unfolding 2 by simp
qed

text \<open>
  Claim C8, amended. On a successful fetch, one whose \<^verbatim>\<open>try\<close> block completes, \<^verbatim>\<open>Number\<close> of
  each of the ten fields read is a number; the token list is ETH, BTC, USDC, LINK, UNI;
  each price is that number when it is finite and otherwise the value of the literal
  2340, 43250, 1.0, 14.85, 6.42 (for the last two the binary64 value nearest to it), and
  each 24h change is that number when finite and otherwise 0. The number is \<^verbatim>\<open>NaN\<close>, so
  the fallback applies, when the coin's entry or the field is missing and when the field
  is an object with no property \<^verbatim>\<open>toString\<close> of its own; it is not finite either when the
  field is \<^verbatim>\<open>NaN\<close> or infinite. Where \<^verbatim>\<open>Notification\<close> is defined, a fetch whose parsed
  response is not \<^verbatim>\<open>null\<close> is successful exactly when \<^verbatim>\<open>Number\<close> throws for none of the ten
  fields; when it throws for one, as for an object with a property \<^verbatim>\<open>toString\<close> of its own,
  the cycle logs the \<^verbatim>\<open>TypeError\<close> and leaves the token list as it was.
\<close>

theorem fetched_tokens_fall_back:
  "(fst (fetchTry B seen env (FetchResponse True (Some data)) r1 r2 st) = None \<longrightarrow>
      (\<exists>ns cs.
           map (\<lambda>key. Number B (optMember (member data key) ''usd''))
               [''ethereum'', ''bitcoin'', ''usd-coin'', ''chainlink'', ''uniswap''] = map Inr ns \<and>
           map (\<lambda>key. Number B (optMember (member data key) ''usd_24h_change''))
               [''ethereum'', ''bitcoin'', ''usd-coin'', ''chainlink'', ''uniswap''] = map Inr cs \<and>
           map symbol (tokens (fetchCryptoData B seen env (FetchResponse True (Some data)) r1 r2 st)) =
             [''ETH'', ''BTC'', ''USDC'', ''LINK'', ''UNI''] \<and>
           map price (tokens (fetchCryptoData B seen env (FetchResponse True (Some data)) r1 r2 st)) =
             map2 (\<lambda>n fb. if isFinite n then n else fb) ns
               [lit 2340, lit 43250, lit 1.0, lit 14.85, lit 6.42] \<and>
           map change24h
               (tokens (fetchCryptoData B seen env (FetchResponse True (Some data)) r1 r2 st)) =
             map (\<lambda>c. if isFinite c then c else Fin 0) cs)) \<and>
   (data \<noteq> JNull \<and> data \<noteq> JUndefined \<longrightarrow>
      (fst (fetchTry B seen (Defined perm) (FetchResponse True (Some data)) r1 r2 st) = None) =
        (\<forall>key \<in> set [''ethereum'', ''bitcoin'', ''usd-coin'', ''chainlink'', ''uniswap''].
           \<forall>k \<in> set [''usd'', ''usd_24h_change''].
             \<exists>n. Number B (optMember (member data key) k) = Inr n)) \<and>
   (data \<noteq> JNull \<and> data \<noteq> JUndefined \<and>
    key \<in> set [''ethereum'', ''bitcoin'', ''usd-coin'', ''chainlink'', ''uniswap''] \<and>
    k \<in> set [''usd'', ''usd_24h_change''] \<and>
    Number B (optMember (member data key) k) = Inl e \<longrightarrow>
      fetchCryptoData B seen env (FetchResponse True (Some data)) r1 r2 st =
        st\<lparr>console := console st @ [TypeError], loading := False\<rparr>) \<and>
   (member data key = JUndefined \<longrightarrow> Number B (optMember (member data key) k) = Inr NaN) \<and>
   (member (member data key) k = JUndefined \<longrightarrow>
      Number B (optMember (member data key) k) = Inr NaN) \<and>
   (optMember (member data key) k = JNum NaN \<or> optMember (member data key) k = JNum PosInf \<or>
    optMember (member data key) k = JNum NegInf \<longrightarrow>
      (\<exists>n. Number B (optMember (member data key) k) = Inr n \<and> \<not> isFinite n)) \<and>
   (optMember (member data key) k = JObject kvs \<and> map_of kvs ''toString'' = None \<longrightarrow>
      Number B (optMember (member data key) k) = Inr NaN) \<and>
   (optMember (member data key) k = JObject kvs \<and> map_of kvs ''toString'' \<noteq> None \<longrightarrow>
      Number B (optMember (member data key) k) = Inl TypeError) \<and>
   \<not> isFinite NaN \<and>
   lit 2340 = Fin 2340 \<and> lit 43250 = Fin 43250 \<and> lit 1.0 = Fin 1 \<and>
   lit 14.85 = Fin (8359806808306483 / 2 ^ 49) \<and>
   \<bar>8359806808306483 / 2 ^ 49 - 14.85 :: real\<bar> < 1 / 10 ^ 15 \<and>
   lit 6.42 = Fin (3614138700964823 / 2 ^ 49) \<and>
   \<bar>3614138700964823 / 2 ^ 49 - 6.42 :: real\<bar> < 1 / 10 ^ 15"
proof -
  note a = fetched_tokens[of B seen env data r1 r2 st]
  note b = fetch_succeeds_iff[of data B seen perm r1 r2 st]
  note c = fetch_throwing_field_tokens[of data key k B e seen env r1 r2 st]
  have d: "optMember (member data key) k = JNum NaN \<or> optMember (member data key) k = JNum PosInf \<or>
    optMember (member data key) k = JNum NegInf \<longrightarrow>
      (\<exists>n. Number B (optMember (member data key) k) = Inr n \<and> \<not> isFinite n)"
    by (auto simp: isFinite_def)
  have o: "optMember (member data key) k = JObject kvs \<and> map_of kvs ''toString'' = None \<longrightarrow>
      Number B (optMember (member data key) k) = Inr NaN"
    "optMember (member data key) k = JObject kvs \<and> map_of kvs ''toString'' \<noteq> None \<longrightarrow>
      Number B (optMember (member data key) k) = Inl TypeError"
    by auto
  have n: "\<not> isFinite NaN" by (simp add: isFinite_def)
  have e: "\<bar>8359806808306483 / 2 ^ 49 - 14.85 :: real\<bar> < 1 / 10 ^ 15"
    "\<bar>3614138700964823 / 2 ^ 49 - 6.42 :: real\<bar> < 1 / 10 ^ 15" by simp_all
  from a b c d o n e lit_exact(1,2,3) lit_fallbacks
    missing_NaN[where data = data and key = key and B = B and k = k]
  show ?thesis by (intro conjI impI) (assumption | blast)+
qed

theorem fetched_tokens_fall_back_witness:
  "fst (fetchTry sampleBuiltins [] (Defined Granted)
      (FetchResponse True (Some (JObject [(''bitcoin'', JObject [(''usd'', JNum (Fin 50000))])])))
      0 0 initialState) = None \<and>
   map price (tokens (fetchCryptoData sampleBuiltins [] (Defined Granted)
      (FetchResponse True (Some (JObject [(''bitcoin'', JObject [(''usd'', JNum (Fin 50000))])]))) 0 0
      initialState))
   = [Fin 2340, Fin 50000, Fin 1, lit 14.85, lit 6.42] \<and>
   map change24h (tokens (fetchCryptoData sampleBuiltins [] (Defined Granted)
      (FetchResponse True (Some (JObject [(''bitcoin'', JObject [(''usd'', JNum (Fin 50000))])]))) 0 0
      initialState))
   = [Fin 0, Fin 0, Fin 0, Fin 0, Fin 0] \<and>
   Number sampleBuiltins
     (optMember (member (JObject [(''ethereum'', JObject [(''usd'', JObject [(''toString'', JNum (Fin 1))])])])
                        ''ethereum'') ''usd'') = Inl TypeError \<and>
   fetchCryptoData sampleBuiltins [] (Defined Granted)
      (FetchResponse True
         (Some (JObject [(''ethereum'', JObject [(''usd'', JObject [(''toString'', JNum (Fin 1))])])])))
      0 0 initialState =
     initialState\<lparr>console := [TypeError], loading := False\<rparr>"
proof -
  let ?d = "JObject [(''bitcoin'', JObject [(''usd'', JNum (Fin 50000))])]"
  let ?t = "JObject [(''ethereum'', JObject [(''usd'', JObject [(''toString'', JNum (Fin 1))])])]"
  note t1 = fetched_tokens_fall_back[where B = sampleBuiltins and seen = "[]"
      and env = "Defined Granted" and perm = Granted and data = ?d
      and ?r1.0 = 0 and ?r2.0 = 0 and st = initialState]
  note t2 = fetched_tokens_fall_back[where B = sampleBuiltins and seen = "[]"
      and env = "Defined Granted" and perm = Granted and data = ?t and key = "''ethereum''"
      and k = "''usd''" and e = TypeError
      and ?r1.0 = 0 and ?r2.0 = 0 and st = initialState]
  have N: "\<forall>key \<in> set [''ethereum'', ''bitcoin'', ''usd-coin'', ''chainlink'', ''uniswap''].
           \<forall>k \<in> set [''usd'', ''usd_24h_change''].
             \<exists>n. Number sampleBuiltins (optMember (member ?d key) k) = Inr n"
    by (simp add: member_def optMember_def)
  have h: "?d \<noteq> JNull \<and> ?d \<noteq> JUndefined" by simp
  from t1 h N have s: "fst (fetchTry sampleBuiltins [] (Defined Granted)
      (FetchResponse True (Some ?d)) 0 0 initialState) = None"
    by blast
  with t1 obtain ns cs where
    ns: "map (\<lambda>key. Number sampleBuiltins (optMember (member ?d key) ''usd''))
               [''ethereum'', ''bitcoin'', ''usd-coin'', ''chainlink'', ''uniswap''] = map Inr ns"
    and cs: "map (\<lambda>key. Number sampleBuiltins (optMember (member ?d key) ''usd_24h_change''))
               [''ethereum'', ''bitcoin'', ''usd-coin'', ''chainlink'', ''uniswap''] = map Inr cs"
    and p: "map price (tokens (fetchCryptoData sampleBuiltins [] (Defined Granted)
               (FetchResponse True (Some ?d)) 0 0 initialState)) =
             map2 (\<lambda>n fb. if isFinite n then n else fb) ns
               [lit 2340, lit 43250, lit 1.0, lit 14.85, lit 6.42]"
    and c: "map change24h (tokens (fetchCryptoData sampleBuiltins [] (Defined Granted)
               (FetchResponse True (Some ?d)) 0 0 initialState)) =
             map (\<lambda>c. if isFinite c then c else Fin 0) cs"
    by blast
  have i: "\<And>xs ys :: jsnum list.
      (map Inr xs = (map Inr ys :: (js_error + jsnum) list)) = (xs = ys)"
    by (rule inj_map_eq_map) simp
  from ns have "map Inr ns = (map Inr [NaN, Fin 50000, NaN, NaN, NaN] :: (js_error + jsnum) list)"
    by (simp add: member_def optMember_def)
  then have ns': "ns = [NaN, Fin 50000, NaN, NaN, NaN]" by (simp only: i)
  from cs have "map Inr cs = (map Inr [NaN, NaN, NaN, NaN, NaN] :: (js_error + jsnum) list)"
    by (simp add: member_def optMember_def)
  then have cs': "cs = [NaN, NaN, NaN, NaN, NaN]" by (simp only: i)
  have p': "map price (tokens (fetchCryptoData sampleBuiltins [] (Defined Granted)
               (FetchResponse True (Some ?d)) 0 0 initialState)) =
            [Fin 2340, Fin 50000, Fin 1, lit 14.85, lit 6.42]"
    unfolding p ns' using lit_exact(1,2,3) by (simp add: isFinite_def)
  have c': "map change24h (tokens (fetchCryptoData sampleBuiltins [] (Defined Granted)
               (FetchResponse True (Some ?d)) 0 0 initialState)) =
            [Fin 0, Fin 0, Fin 0, Fin 0, Fin 0]"
    unfolding c cs' by (simp add: isFinite_def)
  have th: "Number sampleBuiltins (optMember (member ?t ''ethereum'') ''usd'') = Inl TypeError"
    by (simp add: member_def optMember_def)
  have h2: "?t \<noteq> JNull \<and> ?t \<noteq> JUndefined \<and>
    ''ethereum'' \<in> set [''ethereum'', ''bitcoin'', ''usd-coin'', ''chainlink'', ''uniswap''] \<and>
    ''usd'' \<in> set [''usd'', ''usd_24h_change'']" by simp
  from t2 h2 th have f: "fetchCryptoData sampleBuiltins [] (Defined Granted)
      (FetchResponse True (Some ?t)) 0 0 initialState =
     initialState\<lparr>console := console initialState @ [TypeError], loading := False\<rparr>"
    by blast
  have f': "fetchCryptoData sampleBuiltins [] (Defined Granted)
      (FetchResponse True (Some ?t)) 0 0 initialState =
     initialState\<lparr>console := [TypeError], loading := False\<rparr>"
    unfolding f by (simp add: initialState_def)
  from s p' c' th f' show ?thesis by (intro conjI)
qed

section \<open>What the evaluator leaves unchanged (C9)\<close>

text \<open>
  Claim C9 as stated fails for a list in which two alerts share an identifier, as two
  alerts created at the same clock reading do: the updater deactivates by identifier, so
  the alert on BTC is deactivated by the evaluation of ETH, whose symbol it does not
  match.
\<close>

theorem evaluator_frame_shared_id_counterexample:
  "map alertSymbol (alerts
      (createAlert 1700000000000 ''BTC'' Above (Fin 100)
        (createAlert 1700000000000 ''ETH'' Above (Fin 10) initialState))) = [''ETH'', ''BTC''] \<and>
   map isActive (alerts
      (createAlert 1700000000000 ''BTC'' Above (Fin 100)
        (createAlert 1700000000000 ''ETH'' Above (Fin 10) initialState))) = [True, True] \<and>
   map isActive (alerts (snd (checkPriceAlerts sampleBuiltins
      (alerts (createAlert 1700000000000 ''BTC'' Above (Fin 100)
                (createAlert 1700000000000 ''ETH'' Above (Fin 10) initialState)))
      (Defined Denied) (Fin 20) ''ETH''
      (createAlert 1700000000000 ''BTC'' Above (Fin 100)
        (createAlert 1700000000000 ''ETH'' Above (Fin 10) initialState))))) = [False, False]"
  by (simp add: check_alerts reached_def fires_def shouldTrigger_def js_ge_Fin createAlert_def
      Let_def initialState_def)

text \<open>
  Claim C9, amended. For every state, iterated list, price and symbol, the evaluator keeps
  the length of the alert list and the identifier, symbol, direction and threshold of
  every alert, and makes no inactive alert active. An alert that changes was active, is
  now its inactive copy, and shares its identifier with an active alert of the iterated
  list whose symbol matches and whose trigger condition holds; when the iterated list is
  the list of the state and identifiers are pairwise distinct, the changed alert itself
  matches the symbol and satisfies the condition. Tokens, the synthesized token, the
  loading and modal flags and the error log are unchanged. All of this holds of the
  state the evaluator reaches, whether it returns or throws.
\<close>

theorem evaluator_frame:
  "length (alerts (snd (checkPriceAlerts B seen env p symb st))) = length (alerts st) \<and>
   map alertId (alerts (snd (checkPriceAlerts B seen env p symb st))) = map alertId (alerts st) \<and>
   map alertSymbol (alerts (snd (checkPriceAlerts B seen env p symb st))) =
     map alertSymbol (alerts st) \<and>
   map alertType (alerts (snd (checkPriceAlerts B seen env p symb st))) =
     map alertType (alerts st) \<and>
   map threshold (alerts (snd (checkPriceAlerts B seen env p symb st))) =
     map threshold (alerts st) \<and>
   (\<forall>k < length (alerts st).
      isActive (alerts (snd (checkPriceAlerts B seen env p symb st)) ! k) \<longrightarrow>
        isActive (alerts st ! k)) \<and>
   (\<forall>k < length (alerts st).
      alerts (snd (checkPriceAlerts B seen env p symb st)) ! k \<noteq> alerts st ! k \<longrightarrow>
        isActive (alerts st ! k) \<and>
        alerts (snd (checkPriceAlerts B seen env p symb st)) ! k =
          (alerts st ! k)\<lparr>isActive := False\<rparr> \<and>
        (\<exists>a \<in> set seen. alertId a = alertId (alerts st ! k) \<and> alertSymbol a = symb \<and>
                         isActive a \<and> shouldTrigger a p)) \<and>
   (distinct (map alertId (alerts st)) \<longrightarrow>
      (\<forall>k < length (alerts st).
         alerts (snd (checkPriceAlerts B (alerts st) env p symb st)) ! k \<noteq> alerts st ! k \<longrightarrow>
           alertSymbol (alerts st ! k) = symb \<and> shouldTrigger (alerts st ! k) p)) \<and>
   tokens (snd (checkPriceAlerts B seen env p symb st)) = tokens st \<and>
   airToken (snd (checkPriceAlerts B seen env p symb st)) = airToken st \<and>
   loading (snd (checkPriceAlerts B seen env p symb st)) = loading st \<and>
   showAlertModal (snd (checkPriceAlerts B seen env p symb st)) = showAlertModal st \<and>
   console (snd (checkPriceAlerts B seen env p symb st)) = console st"
  using check_length[of B seen env p symb st] check_map_fields[of B seen env p symb st]
    check_never_activates[of _ st B seen env p symb]
    check_changed[of _ st B seen env p symb]
    check_changed_distinct[of _ st B env p symb]
    check_rest[of B seen env p symb st]
  by (intro conjI allI impI) (assumption | blast)+

theorem evaluator_frame_witness:
  "distinct (map alertId (alerts (initialState\<lparr>alerts :=
        [\<lparr>alertId = ''1'', alertSymbol = ''ETH'', alertType = Above, threshold = Fin 10, isActive = True\<rparr>,
         \<lparr>alertId = ''2'', alertSymbol = ''BTC'', alertType = Above, threshold = Fin 100, isActive = True\<rparr>]\<rparr>))) \<and>
   1 < length (alerts (initialState\<lparr>alerts :=
        [\<lparr>alertId = ''1'', alertSymbol = ''ETH'', alertType = Above, threshold = Fin 10, isActive = True\<rparr>,
         \<lparr>alertId = ''2'', alertSymbol = ''BTC'', alertType = Above, threshold = Fin 100, isActive = True\<rparr>]\<rparr>)) \<and>
   alerts (snd (checkPriceAlerts sampleBuiltins
      [\<lparr>alertId = ''1'', alertSymbol = ''ETH'', alertType = Above, threshold = Fin 10, isActive = True\<rparr>,
       \<lparr>alertId = ''2'', alertSymbol = ''BTC'', alertType = Above, threshold = Fin 100, isActive = True\<rparr>]
      (Defined Denied) (Fin 20) ''ETH''
      (initialState\<lparr>alerts :=
        [\<lparr>alertId = ''1'', alertSymbol = ''ETH'', alertType = Above, threshold = Fin 10, isActive = True\<rparr>,
         \<lparr>alertId = ''2'', alertSymbol = ''BTC'', alertType = Above, threshold = Fin 100, isActive = True\<rparr>]\<rparr>))) ! 1
     = \<lparr>alertId = ''2'', alertSymbol = ''BTC'', alertType = Above, threshold = Fin 100, isActive = True\<rparr>"
proof -
  let ?a = "\<lparr>alertId = ''1'', alertSymbol = ''ETH'', alertType = Above, threshold = Fin 10, isActive = True\<rparr>"
  let ?b = "\<lparr>alertId = ''2'', alertSymbol = ''BTC'', alertType = Above, threshold = Fin 100, isActive = True\<rparr>"
  let ?s = "initialState\<lparr>alerts := [?a, ?b]\<rparr>"
  note t = evaluator_frame[of sampleBuiltins "alerts ?s" "Defined Denied" "Fin 20" "''ETH''" ?s]
  have h: "distinct (map alertId (alerts ?s))" "1 < length (alerts ?s)" by simp_all
  have ne: "alertSymbol (alerts ?s ! 1) \<noteq> ''ETH''" by simp
  from t h have "alerts (snd (checkPriceAlerts sampleBuiltins (alerts ?s) (Defined Denied) (Fin 20) ''ETH'' ?s)) ! 1 \<noteq> alerts ?s ! 1
      \<longrightarrow> alertSymbol (alerts ?s ! 1) = ''ETH''"
    by blast
  with ne have "alerts (snd (checkPriceAlerts sampleBuiltins (alerts ?s) (Defined Denied) (Fin 20) ''ETH'' ?s)) ! 1 = alerts ?s ! 1"
    by blast
  with h show ?thesis by simp
qed

section \<open>The synthesized token (C10)\<close>

text \<open>
  Claim C10 as stated fails at the upper end of the price interval. Each operation rounds
  to binary64: for the value \<open>1 - 2\<^sup>-\<^sup>5\<^sup>2\<close> of \<^verbatim>\<open>Math.random()\<close> the price is the binary64 value
  nearest to 0.006785, which is not below \<open>0.00676 + 0.000025\<close>.
\<close>

theorem air_price_upper_end_counterexample:
  "(0 :: real) \<le> 1 - 1 / 2 ^ 52 \<and> (1 - 1 / 2 ^ 52 :: real) < 1 \<and>
   fst (fetchTry sampleBuiltins [] (Defined Granted) (FetchResponse True (Some (JObject [])))
          (1 - 1 / 2 ^ 52) 0 initialState) = None \<and>
   map_option price
     (airToken (fetchCryptoData sampleBuiltins [] (Defined Granted)
        (FetchResponse True (Some (JObject []))) (1 - 1 / 2 ^ 52) 0 initialState))
   = Some (Fin (7822572408757457 / 2 ^ 60)) \<and>
   \<not> ((7822572408757457 / 2 ^ 60 :: real) < 0.00676 + 0.000025)"
proof -
  have s: "fst (fetchTry sampleBuiltins [] (Defined Granted) (FetchResponse True (Some (JObject [])))
          (1 - 1 / 2 ^ 52) 0 initialState) = None"
    by (rule fetch_empty_object_succeeds)
  have "map_option price
     (airToken (fetchCryptoData sampleBuiltins [] (Defined Granted)
        (FetchResponse True (Some (JObject []))) (1 - 1 / 2 ^ 52) 0 initialState))
   = Some (Fin (7822572408757457 / 2 ^ 60))"
    unfolding fetch_done_air[OF s] option.map top_jitter_price ..
  moreover have "\<not> ((7822572408757457 / 2 ^ 60 :: real) < 0.00676 + 0.000025)" by simp
  ultimately show ?thesis using s by simp
qed

text \<open>
  Claim C10, amended. For all values of the random source in \<open>[0, 1)\<close>, a successful fetch
  cycle, one whose \<^verbatim>\<open>try\<close> block completes, gives the synthesized token a finite price \<open>p\<close>
  and a finite change \<open>c\<close> with \<open>0.00676 - 0.000025 \<le> p \<le> P\<close>, where
  \<open>P = 7822572408757457 / 2\<^sup>6\<^sup>0\<close> is the binary64 value nearest to \<open>0.00676 + 0.000025\<close> and
  exceeds it by less than \<open>3 / 10\<^sup>1\<^sup>9\<close>; the price is strictly positive; and
  \<open>1.8 - 1.5 \<le> c < 1.8 + 1.5\<close>.
\<close>

theorem air_token_ranges:
  assumes "0 \<le> r1" and "r1 < 1" and "0 \<le> r2" and "r2 < 1"
    and "fst (fetchTry B seen env outcome r1 r2 st) = None"
  shows "\<exists>p c.
     map_option price (airToken (fetchCryptoData B seen env outcome r1 r2 st)) = Some (Fin p) \<and>
     map_option change24h (airToken (fetchCryptoData B seen env outcome r1 r2 st)) =
       Some (Fin c) \<and>
     0.00676 - 0.000025 \<le> p \<and> p \<le> 7822572408757457 / 2 ^ 60 \<and>
     (7822572408757457 / 2 ^ 60 :: real) < 0.00676 + 0.000025 + 3 / 10 ^ 19 \<and>
     0 < p \<and> 1.8 - 1.5 \<le> c \<and> c < 1.8 + 1.5"
proof -
  let ?p = "round64 (3896874685571143 / 2 ^ 59 +
                     round64 (round64 (r1 - 1 / 2) * (7378697629483821 / 2 ^ 67)))"
  let ?c = "round64 (8106479329266893 / 2 ^ 52 + round64 (round64 (r2 - 1 / 2) * 3))"
  have a: "airToken (fetchCryptoData B seen env outcome r1 r2 st) =
             Some (projr (airTokenDataOf B r1 r2))"
    using assms(5) by (rule fetch_done_air)
  have p: "price (projr (airTokenDataOf B r1 r2)) = Fin ?p" using assms(1,2) by (rule air_price)
  have c: "change24h (projr (airTokenDataOf B r1 r2)) = Fin ?c"
    using assms(3,4) by (rule air_change)
  note pr = price_range[OF assms(1,2)]
  note cr = change_range[OF assms(3,4)]
  have l: "0.00676 - 0.000025 \<le> (7764926333527115 / 2 ^ 60 :: real)" by simp
  have h: "(7822572408757457 / 2 ^ 60 :: real) < 0.00676 + 0.000025 + 3 / 10 ^ 19" by simp
  have z: "0 < (7764926333527115 / 2 ^ 60 :: real)" by simp
  have cl: "1.8 - 1.5 \<le> (1351079888211149 / 2 ^ 52 :: real)" by simp
  have ch: "(3715469692580659 / 2 ^ 50 :: real) < 1.8 + 1.5" by simp
  have 1: "0.00676 - 0.000025 \<le> ?p" using pr(1) l by (rule order_trans[rotated])
  have 2: "0 < ?p" using z pr(1) by (rule less_le_trans)
  have 3: "1.8 - 1.5 \<le> ?c" using cr(1) cl by (rule order_trans[rotated])
  have 4: "?c < 1.8 + 1.5" using cr(2) ch by (rule le_less_trans)
  have 5: "map_option price (airToken (fetchCryptoData B seen env outcome r1 r2 st)) =
         Some (Fin ?p)" unfolding a option.map p ..
  have 6: "map_option change24h (airToken (fetchCryptoData B seen env outcome r1 r2 st)) =
         Some (Fin ?c)" unfolding a option.map c ..
  from 5 6 1 pr(2) h 2 3 4 show ?thesis by blast
qed

theorem air_token_ranges_witness:
  "(0::real) \<le> 1 / 2 \<and> (1 / 2 :: real) < 1 \<and>
   fst (fetchTry sampleBuiltins [] (Defined Granted) (FetchResponse True (Some (JObject [])))
          (1 / 2) (1 / 2) initialState) = None \<and>
   (\<exists>p c.
     map_option price
       (airToken (fetchCryptoData sampleBuiltins [] (Defined Granted)
          (FetchResponse True (Some (JObject []))) (1 / 2) (1 / 2) initialState)) = Some (Fin p) \<and>
     map_option change24h
       (airToken (fetchCryptoData sampleBuiltins [] (Defined Granted)
          (FetchResponse True (Some (JObject []))) (1 / 2) (1 / 2) initialState)) = Some (Fin c) \<and>
     0 < p \<and> c < 1.8 + 1.5)"
proof -
  have h: "(0::real) \<le> 1 / 2" "(1 / 2 :: real) < 1" by simp_all
  have s: "fst (fetchTry sampleBuiltins [] (Defined Granted) (FetchResponse True (Some (JObject [])))
          (1 / 2) (1 / 2) initialState) = None"
    by (simp add: fetchTry_def cryptoTokensOf_def tokenOf_def airTokenDataOf_def safeNumber_char
        member_def optMember_def check_Nil forEach_check_Nil Let_def split: sum.splits)
  from air_token_ranges[OF h(1,2) h(1,2) s]
  obtain p c where
    "map_option price
       (airToken (fetchCryptoData sampleBuiltins [] (Defined Granted)
          (FetchResponse True (Some (JObject []))) (1 / 2) (1 / 2) initialState)) = Some (Fin p)"
    "map_option change24h
       (airToken (fetchCryptoData sampleBuiltins [] (Defined Granted)
          (FetchResponse True (Some (JObject []))) (1 / 2) (1 / 2) initialState)) = Some (Fin c)"
    "0 < p" "c < 1.8 + 1.5" by blast
  with h s show ?thesis by blast
qed

end
